theory Spec2Isabelle
  imports Complex_Main
begin

section \<open>The bounty store\<close>

text \<open>
  The tables of \<^verbatim>\<open>setupDatabase\<close> (server.js, lines 54-95). Only the columns the
  bounty handlers read or write are kept in \<open>users\<close>. The \<open>status\<close> column is TEXT;
  the handlers only ever write the three literals \<^verbatim>\<open>'open'\<close>, \<^verbatim>\<open>'payment pending'\<close>
  and \<^verbatim>\<open>'completed'\<close>. NUMERIC amounts are rationals, INTEGER and SERIAL columns are
  integers, a nullable column is an \<open>option\<close>.
\<close>

datatype bounty_status = Open | PaymentPending | Completed

record user =
  github_id :: int
  github_installation_id :: "string option"
  solana_address :: "string option"

record bounty =
  b_id :: int
  issue_id :: int
  amount :: rat
  status :: bounty_status
  repository :: string
  issue_title :: string
  issue_url :: string
  creator_id :: int
  claimed_by :: "int option"

record claim =
  c_id :: int
  bounty_id :: int
  user_id :: int
  pull_request :: int

text \<open>
  The store: the three tables in insertion order, and the two SERIAL sequences
  (\<open>nextval\<close> is not undone when the statement that called it fails).
\<close>

record database =
  users :: "user list"
  bounties :: "bounty list"
  bounty_claims :: "claim list"
  bounties_id_seq :: int
  bounty_claims_id_seq :: int

text \<open>
  The values an INTEGER or SERIAL column can hold. An id that arrives in a request is
  any integer. A statement that compares an INTEGER column with a parameter outside this
  range is refused with \<^verbatim>\<open>22003\<close> (numeric value out of range); no stored value equals
  such a parameter, so the model raises the error at the place where the statement finds
  no row.
\<close>

definition int4 :: "int \<Rightarrow> bool" where
  "int4 n = (- 2147483648 \<le> n \<and> n \<le> 2147483647)"

text \<open>The column names of \<^verbatim>\<open>bounty_claims\<close> as \<^verbatim>\<open>CREATE TABLE\<close> declares them (lines 88-94).\<close>

definition bounty_claims_columns :: "string list" where
  "bounty_claims_columns = [''id'', ''bounty_id'', ''user_id'', ''claimed_at'', ''pull_request'']"

subsection \<open>Errors\<close>

text \<open>
  What a JavaScript \<^verbatim>\<open>throw\<close> carries here: an error of the PostgreSQL driver with its
  SQLSTATE in \<^verbatim>\<open>.code\<close>, a \<^verbatim>\<open>TypeError\<close> from reading a property of
  \<^verbatim>\<open>undefined\<close> or \<^verbatim>\<open>null\<close>, or a failed request to the GitHub API.
  SQLSTATEs used: \<^verbatim>\<open>P0001\<close> is what \<^verbatim>\<open>RAISE EXCEPTION\<close> without an error code raises,
  \<^verbatim>\<open>42703\<close> undefined column, \<^verbatim>\<open>23505\<close> unique violation, \<^verbatim>\<open>23503\<close> foreign-key
  violation, \<^verbatim>\<open>23502\<close> not-null violation, \<^verbatim>\<open>22003\<close> numeric value out of range.
\<close>

datatype js_error = PgError string | TypeError | RequestError

definition error_code :: "js_error \<Rightarrow> string option" where
  "error_code e = (case e of PgError c \<Rightarrow> Some c | _ \<Rightarrow> None)"

subsection \<open>Statements on \<open>bounties\<close>\<close>

text \<open>
  The trigger function \<^verbatim>\<open>check_unique_open_bounty\<close> (lines 98-109), run
  \<^verbatim>\<open>BEFORE INSERT OR UPDATE\<close> for each row: \<open>True\<close> when it raises.
\<close>

definition check_unique_open_bounty :: "bounty \<Rightarrow> database \<Rightarrow> bool" where
  "check_unique_open_bounty new db =
     (status new = Open \<and>
      (\<exists>b \<in> set (bounties db). issue_id b = issue_id new \<and> b_id b \<noteq> b_id new \<and> status b = Open))"

text \<open>
  \<^verbatim>\<open>INSERT INTO bounties (issue_id, amount, status, creator_id, repository, issue_title,
  issue_url) VALUES (...) RETURNING id\<close>: the id comes from the sequence, the trigger runs
  before the row is written, then the primary key and the foreign key on \<open>creator_id\<close>
  are checked.
\<close>

definition insert_bounty ::
  "int \<Rightarrow> rat \<Rightarrow> bounty_status \<Rightarrow> int \<Rightarrow> string \<Rightarrow> string \<Rightarrow> string \<Rightarrow> database
     \<Rightarrow> (js_error + int) \<times> database" where
  "insert_bounty issueId amt st userId repo title url db =
     (let new_id = bounties_id_seq db + 1;
          db1 = db\<lparr>bounties_id_seq := new_id\<rparr>;
          new = \<lparr>b_id = new_id, issue_id = issueId, amount = amt, status = st,
                 repository = repo, issue_title = title, issue_url = url,
                 creator_id = userId, claimed_by = None\<rparr>
      in if check_unique_open_bounty new db then (Inl (PgError ''P0001''), db1)
         else if new_id \<in> b_id ` set (bounties db) then (Inl (PgError ''23505''), db1)
         else if userId \<notin> github_id ` set (users db) then (Inl (PgError ''23503''), db1)
         else (Inr new_id, db1\<lparr>bounties := bounties db @ [new]\<rparr>))"

text \<open>
  \<^verbatim>\<open>UPDATE bounties SET ... WHERE id = $n\<close>: \<open>f\<close> is the \<^verbatim>\<open>SET\<close> clause. The trigger
  runs on the new version of every row the statement touches; when it raises, the
  statement changes nothing.
\<close>

definition update_bounties ::
  "(bounty \<Rightarrow> bounty) \<Rightarrow> int \<Rightarrow> database \<Rightarrow> js_error + database" where
  "update_bounties f bountyId db =
     (if \<exists>b \<in> set (bounties db). b_id b = bountyId \<and> check_unique_open_bounty (f b) db
      then Inl (PgError ''P0001'')
      else Inr (db\<lparr>bounties := map (\<lambda>b. if b_id b = bountyId then f b else b) (bounties db)\<rparr>))"

section \<open>Outbound GitHub calls\<close>

text \<open>
  The comment bodies are template strings; each constructor stands for one template,
  with the values it interpolates:
  \<^item> \<open>DuplicateOpenBounty\<close>: "An open bounty already exists for this issue. ..." (line 1021);
  \<^item> \<open>BountyCreated amount bountyId\<close>: "Congratulations! A bounty of ... rupees ..." (line 1044);
  \<^item> \<open>JoinFirst\<close>: "To claim this bounty, you need to join Paisa-Baat first. ..." (line 1125);
  \<^item> \<open>NoOpenBounty bountyId\<close>: "Sorry, no open bounty found with ID ..." (line 1136);
  \<^item> \<open>OwnBounty\<close>: "Sorry, you cannot claim your own bounty." (line 1144);
  \<^item> \<open>ReviewPending\<close>: "Thank you for your contribution! The repo owners/managers will
    review your code ..." (line 1156);
  \<^item> \<open>AlreadyClaimed\<close>: "This bounty has already been claimed on another pull request. ..."
    (line 1162);
  \<^item> \<open>AmountUpdated old new\<close>: "The bounty amount for this issue has been updated from ...
    to ..." (lines 651, 665), \<open>new\<close> being whatever the request body held;
  \<^item> \<open>BountyDeleted user bountyId\<close>: "@user The bounty you claimed (ID: ...) has been deleted
    by the owner." (line 734).
\<close>

datatype message =
    DuplicateOpenBounty
  | BountyCreated rat int
  | JoinFirst
  | NoOpenBounty int
  | OwnBounty
  | ReviewPending
  | AlreadyClaimed
  | AmountUpdated rat "rat option"
  | BountyDeleted int int

text \<open>
  \<open>IssueComment owner repo issue_number body\<close> is \<^verbatim>\<open>issues.createComment\<close>;
  \<open>ReviewComment owner repo pull_number body commit_id path\<close> is
  \<^verbatim>\<open>pulls.createReviewComment\<close> (its \<^verbatim>\<open>line\<close> is always 1). GitHub is a collaborator
  that accepts a call or makes it throw: a value of type \<open>github\<close> says which.
\<close>

datatype api_call =
    IssueComment string string int message
  | ReviewComment string string int message string string

type_synonym github = "api_call \<Rightarrow> bool"

text \<open>
  What running a handler leaves behind: its outcome, the store, the calls GitHub accepted,
  in order, and the \<^verbatim>\<open>console.error\<close> lines (their first argument). The outcome of
  a webhook handler is what it returned (\<open>Inr\<close>) or threw (\<open>Inl\<close>); the outcome of an
  HTTP route is the response it sent.
\<close>

record 'a run =
  outcome :: "'a"
  store :: database
  posted :: "api_call list"
  errlog :: "string list"

section \<open>Command parser\<close>

text \<open>
  The regular expressions \<^verbatim>\<open>/\/create-bounty\s+(\d+)/i\<close> and \<^verbatim>\<open>/\/claim-bounty\s+(\d+)/i\<close>
  used with \<^verbatim>\<open>String.prototype.match\<close>: the leftmost position where the command token
  (letters in either case), at least one white-space character and at least one decimal
  digit follow each other; the group is the longest run of digits there. Event text is a
  \<open>string\<close> of 8-bit characters, so \<^verbatim>\<open>\s\<close> is TAB, LF, VT, FF, CR, SPACE and NBSP.
  Without the \<^verbatim>\<open>u\<close> flag, \<^verbatim>\<open>/i\<close> never identifies a non-ASCII character with an ASCII
  one, so only the ASCII letters have two cases here.
\<close>

definition is_digit :: "char \<Rightarrow> bool" where
  "is_digit c = (c \<in> set ''0123456789'')"

definition is_space :: "char \<Rightarrow> bool" where
  "is_space c = (c \<in> set [CHR 0x09, CHR 0x0A, CHR 0x0B, CHR 0x0C, CHR 0x0D, CHR 0x20, CHR 0xA0])"

definition to_upper :: "char \<Rightarrow> char" where
  "to_upper c =
     (case map_of (zip ''abcdefghijklmnopqrstuvwxyz'' ''ABCDEFGHIJKLMNOPQRSTUVWXYZ'') c of
        Some u \<Rightarrow> u | None \<Rightarrow> c)"

text \<open>\<open>strip_token tok s\<close>: \<open>s\<close> without the token at its front, when it starts with it.\<close>

fun strip_token :: "string \<Rightarrow> string \<Rightarrow> string option" where
  "strip_token [] s = Some s"
| "strip_token (p # ps) [] = None"
| "strip_token (p # ps) (c # cs) = (if to_upper c = to_upper p then strip_token ps cs else None)"

definition match_at :: "string \<Rightarrow> string \<Rightarrow> string option" where
  "match_at tok s =
     (case strip_token tok s of
        None \<Rightarrow> None
      | Some rest \<Rightarrow>
          (let digits = takeWhile is_digit (dropWhile is_space rest)
           in if takeWhile is_space rest = [] \<or> digits = [] then None else Some digits))"

fun regex_match :: "string \<Rightarrow> string \<Rightarrow> string option" where
  "regex_match tok [] = match_at tok []"
| "regex_match tok (c # cs) =
     (case match_at tok (c # cs) of Some d \<Rightarrow> Some d | None \<Rightarrow> regex_match tok cs)"

text \<open>
  \<^verbatim>\<open>parseInt\<close> on a run of decimal digits. The model keeps the exact value; JavaScript
  rounds a value above \<open>2^53\<close> to the nearest double.
\<close>

definition digit_val :: "char \<Rightarrow> nat" where
  "digit_val c = (of_char c :: nat) - 48"

definition parseInt :: "string \<Rightarrow> nat" where
  "parseInt ds = foldl (\<lambda>n c. 10 * n + digit_val c) 0 ds"

text \<open>\<^verbatim>\<open>startsWith\<close> and \<^verbatim>\<open>includes\<close> compare characters exactly.\<close>

fun startsWith :: "string \<Rightarrow> string \<Rightarrow> bool" where
  "startsWith s [] = True"
| "startsWith [] (p # ps) = False"
| "startsWith (c # cs) (p # ps) = (c = p \<and> startsWith cs ps)"

fun includes_str :: "string \<Rightarrow> string \<Rightarrow> bool" where
  "includes_str [] tok = startsWith [] tok"
| "includes_str (c # cs) tok = (startsWith (c # cs) tok \<or> includes_str cs tok)"

section \<open>Webhook payloads\<close>

text \<open>
  The fields of the event document the handlers read. \<^verbatim>\<open>payload.comment\<close>,
  \<^verbatim>\<open>payload.issue\<close> and \<^verbatim>\<open>payload.pull_request\<close> are present or not depending on the
  event; the body of an issue or pull request may be \<^verbatim>\<open>null\<close>.
  \<open>is_pull_request\<close> is the truth value of \<^verbatim>\<open>payload.issue.pull_request\<close>;
  \<open>changed_files\<close> is a number in GitHub's payload. \<open>issue_gid\<close> is \<^verbatim>\<open>issue.id\<close>,
  \<open>comment\<close> is \<^verbatim>\<open>comment.body\<close>, \<open>pull_request_of\<close> is \<^verbatim>\<open>payload.pull_request\<close>,
  \<open>sender_id\<close> is \<^verbatim>\<open>sender.id\<close>, and \<open>owner_login\<close>, \<open>repo_name\<close>, \<open>full_name\<close> are
  \<^verbatim>\<open>repository.owner.login\<close>, \<^verbatim>\<open>repository.name\<close>, \<^verbatim>\<open>repository.full_name\<close>.
\<close>

record issue_payload =
  issue_gid :: int
  issue_number :: int
  issue_body :: "string option"
  title :: string
  html_url :: string
  is_pull_request :: bool

record pull_request_payload =
  pr_number :: int
  pr_body :: "string option"
  head_sha :: string
  changed_files :: nat

record payload =
  action :: string
  comment :: "string option"
  issue :: "issue_payload option"
  pull_request_of :: "pull_request_payload option"
  sender_id :: int
  owner_login :: string
  repo_name :: string
  full_name :: string

section \<open>Bounty creation\<close>

text \<open>
  \<^verbatim>\<open>handleBountyCreation\<close> from the \<^verbatim>\<open>INSERT\<close> on (lines 1026-1058): the insert, the
  congratulation comment, and the \<^verbatim>\<open>catch\<close> that logs and rethrows whatever the
  \<^verbatim>\<open>try\<close> block threw.
\<close>

definition handleBountyCreation_insert ::
  "github \<Rightarrow> payload \<Rightarrow> issue_payload \<Rightarrow> nat \<Rightarrow> database \<Rightarrow> (js_error + int option) run" where
  "handleBountyCreation_insert gh p i amt db =
     (case insert_bounty (issue_gid i) (of_nat amt) Open (sender_id p) (full_name p)
             (title i) (html_url i) db of
        (Inl e, db') \<Rightarrow>
          \<lparr>outcome = Inl e, store = db', posted = [], errlog = [''Error creating bounty:'']\<rparr>
      | (Inr bountyId, db') \<Rightarrow>
          (let c = IssueComment (owner_login p) (repo_name p) (issue_number i)
                     (BountyCreated (of_nat amt) bountyId)
           in if gh c
              then \<lparr>outcome = Inr (Some bountyId), store = db', posted = [c], errlog = []\<rparr>
              else \<lparr>outcome = Inl RequestError, store = db', posted = [],
                     errlog = [''Error creating bounty:'']\<rparr>))"

text \<open>
  The same \<^verbatim>\<open>INSERT\<close> while the \<^verbatim>\<open>INSERT\<close> of another request is in flight. Every
  statement is its own transaction and nothing locks the table, so the \<^verbatim>\<open>SELECT\<close> inside
  the trigger reads the rows committed so far, \<open>seen\<close>, and not the row the other
  request is about to commit; the new row lands on the store \<open>db\<close> as it is when this
  statement commits. The sequence and the primary key index are shared at once.
\<close>

definition insert_bounty_overlapping ::
  "database \<Rightarrow> int \<Rightarrow> rat \<Rightarrow> bounty_status \<Rightarrow> int \<Rightarrow> string \<Rightarrow> string \<Rightarrow> string \<Rightarrow> database
     \<Rightarrow> (js_error + int) \<times> database" where
  "insert_bounty_overlapping seen issueId amt st userId repo ttl url db =
     (let new_id = bounties_id_seq db + 1;
          db1 = db\<lparr>bounties_id_seq := new_id\<rparr>;
          new = \<lparr>b_id = new_id, issue_id = issueId, amount = amt, status = st,
                 repository = repo, issue_title = ttl, issue_url = url,
                 creator_id = userId, claimed_by = None\<rparr>
      in if check_unique_open_bounty new seen then (Inl (PgError ''P0001''), db1)
         else if new_id \<in> b_id ` set (bounties db) then (Inl (PgError ''23505''), db1)
         else if userId \<notin> github_id ` set (users db) then (Inl (PgError ''23503''), db1)
         else (Inr new_id, db1\<lparr>bounties := bounties db @ [new]\<rparr>))"

text \<open>
  Lines 1026-1058 of \<^verbatim>\<open>handleBountyCreation\<close> with that \<^verbatim>\<open>INSERT\<close>: the rest of a
  creation whose pre-check found nothing and whose trigger reads \<open>seen\<close>.
\<close>

definition handleBountyCreation_overlapping ::
  "github \<Rightarrow> payload \<Rightarrow> issue_payload \<Rightarrow> nat \<Rightarrow> database \<Rightarrow> database
     \<Rightarrow> (js_error + int option) run" where
  "handleBountyCreation_overlapping gh p i amt seen db =
     (case insert_bounty_overlapping seen (issue_gid i) (of_nat amt) Open (sender_id p)
             (full_name p) (title i) (html_url i) db of
        (Inl e, db') \<Rightarrow>
          \<lparr>outcome = Inl e, store = db', posted = [], errlog = [''Error creating bounty:'']\<rparr>
      | (Inr bountyId, db') \<Rightarrow>
          (let c = IssueComment (owner_login p) (repo_name p) (issue_number i)
                     (BountyCreated (of_nat amt) bountyId)
           in if gh c
              then \<lparr>outcome = Inr (Some bountyId), store = db', posted = [c], errlog = []\<rparr>
              else \<lparr>outcome = Inl RequestError, store = db', posted = [],
                     errlog = [''Error creating bounty:'']\<rparr>))"

text \<open>
  The amount the handler reads (lines 979-986): from the comment when the payload has
  one, else from the issue body. \<open>Inl TypeError\<close> is \<^verbatim>\<open>.match\<close> called on a \<^verbatim>\<open>null\<close>
  body; \<open>Inr None\<close> is \<^verbatim>\<open>null\<close> or \<^verbatim>\<open>undefined\<close>.
\<close>

definition creation_amount :: "payload \<Rightarrow> js_error + nat option" where
  "creation_amount p =
     (case comment p of
        Some body \<Rightarrow> Inr (map_option parseInt (regex_match ''/create-bounty'' body))
      | None \<Rightarrow>
          (case issue p of
             Some i \<Rightarrow>
               (case issue_body i of
                  None \<Rightarrow> Inl TypeError
                | Some body \<Rightarrow> Inr (map_option parseInt (regex_match ''/create-bounty'' body)))
           | None \<Rightarrow> Inr None))"

text \<open>
  \<^verbatim>\<open>handleBountyCreation\<close> (lines 978-1059). \<^verbatim>\<open>!amount\<close> holds for \<^verbatim>\<open>null\<close>,
  \<^verbatim>\<open>undefined\<close> and 0. \<^verbatim>\<open>payload.issue.id\<close> is read before the \<^verbatim>\<open>try\<close>. The result
  is \<open>Some id\<close> for \<^verbatim>\<open>return bountyId\<close> and \<open>None\<close> for a plain \<^verbatim>\<open>return\<close>.
\<close>

definition handleBountyCreation ::
  "github \<Rightarrow> payload \<Rightarrow> database \<Rightarrow> (js_error + int option) run" where
  "handleBountyCreation gh p db =
     (case creation_amount p of
        Inl e \<Rightarrow> \<lparr>outcome = Inl e, store = db, posted = [], errlog = []\<rparr>
      | Inr None \<Rightarrow> \<lparr>outcome = Inr None, store = db, posted = [], errlog = []\<rparr>
      | Inr (Some amt) \<Rightarrow>
          if amt = 0 then \<lparr>outcome = Inr None, store = db, posted = [], errlog = []\<rparr>
          else
            (case issue p of
               None \<Rightarrow> \<lparr>outcome = Inl TypeError, store = db, posted = [], errlog = []\<rparr>
             | Some i \<Rightarrow>
                 if filter (\<lambda>b. issue_id b = issue_gid i \<and> status b = Open) (bounties db) \<noteq> []
                 then
                   (let c = IssueComment (owner_login p) (repo_name p) (issue_number i)
                              DuplicateOpenBounty
                    in if gh c
                       then \<lparr>outcome = Inr None, store = db, posted = [c], errlog = []\<rparr>
                       else \<lparr>outcome = Inl RequestError, store = db, posted = [],
                              errlog = [''Error creating bounty:'']\<rparr>)
                 else handleBountyCreation_insert gh p i amt db))"

section \<open>Bounty claim\<close>

text \<open>
  The trigger function \<^verbatim>\<open>check_unique_claim_on_open_bounty\<close> (lines 120-134), run
  \<^verbatim>\<open>BEFORE INSERT OR UPDATE\<close> on \<^verbatim>\<open>bounty_claims\<close>. Its body names the column
  \<^verbatim>\<open>pull_request_number\<close>; PL/pgSQL resolves the names when the function runs, and
  raises \<^verbatim>\<open>42703\<close> when the row has no such column. Otherwise it raises (with
  \<^verbatim>\<open>RAISE EXCEPTION\<close>, SQLSTATE \<^verbatim>\<open>P0001\<close>) when the new claim's bounty is open and
  another claim with the same pull request number is held against some open bounty.
\<close>

definition check_unique_claim_on_open_bounty :: "claim \<Rightarrow> database \<Rightarrow> js_error option" where
  "check_unique_claim_on_open_bounty new db =
     (if ''pull_request_number'' \<notin> set bounty_claims_columns then Some (PgError ''42703'')
      else if (\<exists>b \<in> set (bounties db). b_id b = bounty_id new \<and> status b = Open) \<and>
              (\<exists>c \<in> set (bounty_claims db).
                  pull_request c = pull_request new \<and>
                  bounty_id c \<in> b_id ` set (filter (\<lambda>b. status b = Open) (bounties db)) \<and>
                  c_id c \<noteq> c_id new)
           then Some (PgError ''P0001'')
           else None)"

text \<open>
  \<^verbatim>\<open>INSERT INTO bounty_claims (bounty_id, user_id, pull_request_number) VALUES ($1, $2, $3)\<close>
  (lines 1150-1153). The statement is rejected with \<^verbatim>\<open>42703\<close> before anything runs
  when it names a column the table does not have. Past that: id from the sequence,
  trigger, primary key, foreign keys.
\<close>

definition insert_bounty_claim ::
  "int \<Rightarrow> int \<Rightarrow> int \<Rightarrow> database \<Rightarrow> (js_error + unit) \<times> database" where
  "insert_bounty_claim bountyId userId prNumber db =
     (if \<not> set [''bounty_id'', ''user_id'', ''pull_request_number''] \<subseteq> set bounty_claims_columns
      then (Inl (PgError ''42703''), db)
      else
        (let new_id = bounty_claims_id_seq db + 1;
             db1 = db\<lparr>bounty_claims_id_seq := new_id\<rparr>;
             new = \<lparr>c_id = new_id, bounty_id = bountyId, user_id = userId,
                    pull_request = prNumber\<rparr>
         in case check_unique_claim_on_open_bounty new db of
              Some e \<Rightarrow> (Inl e, db1)
            | None \<Rightarrow>
                if new_id \<in> c_id ` set (bounty_claims db) then (Inl (PgError ''23505''), db1)
                else if bountyId \<notin> b_id ` set (bounties db) \<or>
                        userId \<notin> github_id ` set (users db)
                     then (Inl (PgError ''23503''), db1)
                     else (Inr (), db1\<lparr>bounty_claims := bounty_claims db @ [new]\<rparr>)))"

text \<open>
  The bounty id the handler reads (lines 1065-1072), with \<^verbatim>\<open>isPRComment\<close>.
\<close>

definition claim_bountyId :: "payload \<Rightarrow> js_error + (nat option \<times> bool)" where
  "claim_bountyId p =
     (case comment p of
        Some body \<Rightarrow> Inr (map_option parseInt (regex_match ''/claim-bounty'' body), True)
      | None \<Rightarrow>
          (case pull_request_of p of
             Some pr \<Rightarrow>
               (case pr_body pr of
                  None \<Rightarrow> Inl TypeError
                | Some body \<Rightarrow>
                    Inr (map_option parseInt (regex_match ''/claim-bounty'' body), False))
           | None \<Rightarrow> Inr (None, False)))"

text \<open>
  The local function \<^verbatim>\<open>createComment\<close> (lines 1099-1121). On a comment event it posts
  an issue comment and reads \<^verbatim>\<open>payload.issue.number\<close>. Otherwise it posts a review
  comment and reads \<^verbatim>\<open>payload.pull_request\<close>; there
  \<^verbatim>\<open>changed_files[0].filename\<close> indexes a number, which gives \<^verbatim>\<open>undefined\<close>, and
  reading \<^verbatim>\<open>.filename\<close> of it throws, whenever \<^verbatim>\<open>changed_files > 0\<close>.
\<close>

definition createComment :: "github \<Rightarrow> payload \<Rightarrow> bool \<Rightarrow> message \<Rightarrow> js_error + api_call" where
  "createComment gh p isPRComment body =
     (if isPRComment then
        (case issue p of
           None \<Rightarrow> Inl TypeError
         | Some i \<Rightarrow>
             (let c = IssueComment (owner_login p) (repo_name p) (issue_number i) body
              in if gh c then Inr c else Inl RequestError))
      else
        (case pull_request_of p of
           None \<Rightarrow> Inl TypeError
         | Some pr \<Rightarrow>
             if changed_files pr > 0 then Inl TypeError
             else
               (let c = ReviewComment (owner_login p) (repo_name p) (pr_number pr) body
                          (head_sha pr) []
                in if gh c then Inr c else Inl RequestError)))"

text \<open>A handler step that ends by posting one comment.\<close>

definition comment_and_return ::
  "github \<Rightarrow> payload \<Rightarrow> bool \<Rightarrow> message \<Rightarrow> database \<Rightarrow> api_call list
     \<Rightarrow> (js_error + unit) \<times> database \<times> api_call list" where
  "comment_and_return gh p isPRComment body db cs =
     (case createComment gh p isPRComment body of
        Inl e \<Rightarrow> (Inl e, db, cs)
      | Inr c \<Rightarrow> (Inr (), db, cs @ [c]))"

text \<open>
  The \<^verbatim>\<open>try\<close> block of \<^verbatim>\<open>handleBountyClaim\<close> (lines 1085-1157). The bounty id was
  typed by a user: the \<^verbatim>\<open>SELECT\<close> on \<^verbatim>\<open>bounties\<close> throws when it is out of range.
\<close>

definition claim_try ::
  "github \<Rightarrow> payload \<Rightarrow> int \<Rightarrow> bool \<Rightarrow> database
     \<Rightarrow> (js_error + unit) \<times> database \<times> api_call list" where
  "claim_try gh p bountyId isPRComment db =
     (let userId = sender_id p in
      if filter (\<lambda>u. github_id u = userId) (users db) = []
      then comment_and_return gh p isPRComment JoinFirst db []
      else
        (case filter (\<lambda>b. b_id b = bountyId \<and> status b = Open) (bounties db) of
           [] \<Rightarrow>
             if \<not> int4 bountyId then (Inl (PgError ''22003''), db, [])
             else comment_and_return gh p isPRComment (NoOpenBounty bountyId) db []
         | bounty # _ \<Rightarrow>
             if creator_id bounty = userId
             then comment_and_return gh p isPRComment OwnBounty db []
             else
               (case pull_request_of p of
                  None \<Rightarrow> (Inl TypeError, db, [])
                | Some pr \<Rightarrow>
                    (case insert_bounty_claim (b_id bounty) userId (pr_number pr) db of
                       (Inl e, db') \<Rightarrow> (Inl e, db', [])
                     | (Inr _, db') \<Rightarrow>
                         comment_and_return gh p isPRComment ReviewPending db' []))))"

text \<open>
  \<^verbatim>\<open>handleBountyClaim\<close> (lines 1061-1170). The \<^verbatim>\<open>catch\<close> posts the "already claimed"
  comment when the error's code is \<^verbatim>\<open>"23505"\<close> and only logs any other error; a throw
  inside the \<^verbatim>\<open>catch\<close> leaves the handler.
\<close>

definition handleBountyClaim ::
  "github \<Rightarrow> payload \<Rightarrow> database \<Rightarrow> (js_error + unit) run" where
  "handleBountyClaim gh p db =
     (case claim_bountyId p of
        Inl e \<Rightarrow> \<lparr>outcome = Inl e, store = db, posted = [], errlog = []\<rparr>
      | Inr (None, isPRComment) \<Rightarrow> \<lparr>outcome = Inr (), store = db, posted = [], errlog = []\<rparr>
      | Inr (Some n, isPRComment) \<Rightarrow>
          if n = 0 then \<lparr>outcome = Inr (), store = db, posted = [], errlog = []\<rparr>
          else
            (case claim_try gh p (int n) isPRComment db of
               (Inr _, db', cs) \<Rightarrow> \<lparr>outcome = Inr (), store = db', posted = cs, errlog = []\<rparr>
             | (Inl e, db', cs) \<Rightarrow>
                 if error_code e = Some ''23505''
                 then
                   (case comment_and_return gh p isPRComment AlreadyClaimed db' cs of
                      (r, db'', cs') \<Rightarrow>
                        \<lparr>outcome = r, store = db'', posted = cs', errlog = []\<rparr>)
                 else \<lparr>outcome = Inr (), store = db', posted = cs,
                        errlog = [''Error claiming bounty:'']\<rparr>))"

section \<open>HTTP routes\<close>

text \<open>
  A response: the status code and the JSON body (or the text \<^verbatim>\<open>send\<close> writes).
  \<open>Payout\<close> is the body of a successful approval: \<^verbatim>\<open>fromWalletAddress\<close>,
  \<^verbatim>\<open>toWalletAddress\<close>, \<^verbatim>\<open>amount\<close>, \<^verbatim>\<open>bountyId\<close>.
\<close>

datatype reply =
    ErrorReply string
  | MessageReply string
  | Payout string string rat int
  | Sent string

datatype response = Response nat reply

subsection \<open>Approval\<close>

text \<open>
  \<^verbatim>\<open>POST /api/approve-bounty-verify\<close> (lines 485-558). \<open>req_user\<close> is the row
  \<^verbatim>\<open>authenticateUser\<close> attached to the request. \<^verbatim>\<open>!owner.solana_address\<close> holds
  for \<^verbatim>\<open>null\<close> and for the empty text. The \<^verbatim>\<open>UPDATE\<close> runs the trigger of
  \<^verbatim>\<open>bounties\<close>; an error lands in the \<^verbatim>\<open>catch\<close>, which answers 500. So does the
  error of the first \<^verbatim>\<open>SELECT\<close> on a \<open>bountyId\<close> out of range and of the second on a
  \<open>claimantId\<close> out of range (both come from the request body).
\<close>

definition approve_bounty_verify :: "user \<Rightarrow> int \<Rightarrow> int \<Rightarrow> database \<Rightarrow> response run" where
  "approve_bounty_verify req_user bountyId claimantId db =
     (case filter (\<lambda>b. b_id b = bountyId) (bounties db) of
        [] \<Rightarrow>
          if \<not> int4 bountyId
          then \<lparr>outcome = Response 500 (ErrorReply ''Failed to approve bounty''), store = db,
                 posted = [], errlog = [''Error approving bounty:'']\<rparr>
          else \<lparr>outcome = Response 404 (ErrorReply ''Bounty not found''), store = db,
                 posted = [], errlog = []\<rparr>
      | bounty # _ \<Rightarrow>
          if filter (\<lambda>c. bounty_id c = bountyId \<and> user_id c = claimantId) (bounty_claims db) = []
          then
            (if \<not> int4 claimantId
             then \<lparr>outcome = Response 500 (ErrorReply ''Failed to approve bounty''), store = db,
                    posted = [], errlog = [''Error approving bounty:'']\<rparr>
             else \<lparr>outcome = Response 400 (ErrorReply ''Claimant has not claimed this bounty''),
                    store = db, posted = [], errlog = []\<rparr>)
          else if creator_id bounty \<noteq> github_id req_user
          then \<lparr>outcome = Response 401 (ErrorReply ''Unauthorized''), store = db,
                 posted = [], errlog = []\<rparr>
          else
            (case (filter (\<lambda>u. github_id u = creator_id bounty) (users db),
                   filter (\<lambda>u. github_id u = claimantId) (users db)) of
               (owner # _, claimant # _) \<Rightarrow>
                 (case (solana_address owner, solana_address claimant) of
                    (Some from_addr, Some to_addr) \<Rightarrow>
                      if from_addr = [] \<or> to_addr = []
                      then \<lparr>outcome = Response 400
                                 (ErrorReply ''Solana address of owner or claimant not found''),
                             store = db, posted = [], errlog = []\<rparr>
                      else
                        (case update_bounties
                                (\<lambda>b. b\<lparr>status := PaymentPending, claimed_by := Some claimantId\<rparr>)
                                bountyId db of
                           Inl e \<Rightarrow>
                             \<lparr>outcome = Response 500 (ErrorReply ''Failed to approve bounty''),
                              store = db, posted = [], errlog = [''Error approving bounty:'']\<rparr>
                         | Inr db' \<Rightarrow>
                             \<lparr>outcome = Response 200
                                          (Payout from_addr to_addr (amount bounty) bountyId),
                              store = db', posted = [], errlog = []\<rparr>)
                  | _ \<Rightarrow>
                      \<lparr>outcome = Response 400
                                   (ErrorReply ''Solana address of owner or claimant not found''),
                       store = db, posted = [], errlog = []\<rparr>)
             | _ \<Rightarrow>
                 \<lparr>outcome = Response 400 (ErrorReply ''Owner or claimant not found''),
                  store = db, posted = [], errlog = []\<rparr>))"

subsection \<open>Amount update\<close>

text \<open>
  \<^verbatim>\<open>bounty.repository.split("/")\<close>: elements 0 and 1. Element 1 is \<^verbatim>\<open>undefined\<close> when
  the text has no slash; the model gives the empty text there.
\<close>

definition split_owner :: "string \<Rightarrow> string" where
  "split_owner s = takeWhile (\<lambda>c. c \<noteq> CHR ''/'') s"

definition split_repo :: "string \<Rightarrow> string" where
  "split_repo s = takeWhile (\<lambda>c. c \<noteq> CHR ''/'') (drop 1 (dropWhile (\<lambda>c. c \<noteq> CHR ''/'') s))"

text \<open>
  \<^verbatim>\<open>UPDATE bounties SET amount = $1 WHERE id = $2\<close> (lines 619-622). \<open>None\<close> is a
  request body without an amount: the trigger runs first, then the \<^verbatim>\<open>NOT NULL\<close>
  constraint rejects the row.
\<close>

definition update_amount :: "rat option \<Rightarrow> int \<Rightarrow> database \<Rightarrow> js_error + database" where
  "update_amount newAmount bountyId db =
     (case newAmount of
        Some a \<Rightarrow> update_bounties (\<lambda>b. b\<lparr>amount := a\<rparr>) bountyId db
      | None \<Rightarrow>
          (case update_bounties (\<lambda>b. b) bountyId db of
             Inl e \<Rightarrow> Inl e
           | Inr db' \<Rightarrow>
               if \<exists>b \<in> set (bounties db). b_id b = bountyId then Inl (PgError ''23502'')
               else Inr db'))"

text \<open>
  The loop over the pull requests (lines 659-671): each call is awaited with no
  \<^verbatim>\<open>try\<close> around it, so the first one that throws ends the loop.
\<close>

fun notify_pull_requests ::
  "github \<Rightarrow> (int \<Rightarrow> api_call) \<Rightarrow> int list \<Rightarrow> (js_error + unit) \<times> api_call list" where
  "notify_pull_requests gh mk [] = (Inr (), [])"
| "notify_pull_requests gh mk (prNumber # rest) =
     (if gh (mk prNumber)
      then (case notify_pull_requests gh mk rest of (r, cs) \<Rightarrow> (r, mk prNumber # cs))
      else (Inl RequestError, []))"

text \<open>
  \<^verbatim>\<open>PUT /api/bounty/:id\<close> (lines 596-680). There is no transaction: the \<^verbatim>\<open>UPDATE\<close>
  is committed when it returns. The comment on the issue has its own \<^verbatim>\<open>try\<close>; the
  loop has not. An id out of range makes the first \<^verbatim>\<open>SELECT\<close> throw.
\<close>

definition update_bounty ::
  "github \<Rightarrow> user \<Rightarrow> int \<Rightarrow> rat option \<Rightarrow> database \<Rightarrow> response run" where
  "update_bounty gh req_user bountyId newAmount db =
     (case filter (\<lambda>b. b_id b = bountyId \<and> creator_id b = github_id req_user) (bounties db) of
        [] \<Rightarrow>
          if \<not> int4 bountyId
          then \<lparr>outcome = Response 500 (ErrorReply ''Failed to update bounty''), store = db,
                 posted = [], errlog = [''Error updating bounty:'']\<rparr>
          else \<lparr>outcome = Response 404
                             (ErrorReply ''Bounty not found or you are not the owner''),
                 store = db, posted = [], errlog = []\<rparr>
      | bounty # _ \<Rightarrow>
          (case update_amount newAmount bountyId db of
             Inl e \<Rightarrow> \<lparr>outcome = Response 500 (ErrorReply ''Failed to update bounty''),
                       store = db, posted = [], errlog = [''Error updating bounty:'']\<rparr>
           | Inr db' \<Rightarrow>
               (let pullRequestNumbers =
                      map pull_request (filter (\<lambda>c. bounty_id c = bountyId) (bounty_claims db'));
                    body = AmountUpdated (amount bounty) newAmount;
                    on_issue = IssueComment (split_owner (repository bounty))
                                 (split_repo (repository bounty)) (issue_id bounty) body;
                    posted1 = (if gh on_issue then [on_issue] else []);
                    errlog1 = (if gh on_issue then [] else [''Error creating comment on issue:''])
                in case notify_pull_requests gh
                          (\<lambda>n. ReviewComment (split_owner (repository bounty))
                                 (split_repo (repository bounty)) n body ''latest'' [])
                          pullRequestNumbers of
                     (Inl e, cs) \<Rightarrow>
                       \<lparr>outcome = Response 500 (ErrorReply ''Failed to update bounty''),
                        store = db', posted = posted1 @ cs,
                        errlog = errlog1 @ [''Error updating bounty:'']\<rparr>
                   | (Inr _, cs) \<Rightarrow>
                       \<lparr>outcome = Response 200 (MessageReply ''Bounty amount updated successfully''),
                        store = db', posted = posted1 @ cs, errlog = errlog1\<rparr>)))"

subsection \<open>Completion\<close>

text \<open>
  \<^verbatim>\<open>POST /api/complete-bounty\<close> (lines 752-768): one \<^verbatim>\<open>UPDATE\<close>, which throws on an
  id out of range.
\<close>

definition complete_bounty :: "int \<Rightarrow> database \<Rightarrow> response run" where
  "complete_bounty bountyId db =
     (if \<not> int4 bountyId \<and> bountyId \<notin> b_id ` set (bounties db)
      then \<lparr>outcome = Response 500 (ErrorReply ''Failed to complete bounty''),
             store = db, posted = [], errlog = [''Error completing bounty:'']\<rparr>
      else
        (case update_bounties (\<lambda>b. b\<lparr>status := Completed\<rparr>) bountyId db of
           Inl e \<Rightarrow> \<lparr>outcome = Response 500 (ErrorReply ''Failed to complete bounty''),
                     store = db, posted = [], errlog = [''Error completing bounty:'']\<rparr>
         | Inr db' \<Rightarrow> \<lparr>outcome = Response 200 (MessageReply ''Bounty completed successfully''),
                       store = db', posted = [], errlog = []\<rparr>))"

subsection \<open>Deletion\<close>

text \<open>
  \<^verbatim>\<open>DELETE FROM bounties WHERE id = $1\<close>: the foreign key of \<^verbatim>\<open>bounty_claims\<close>
  rejects it while a claim still points to the bounty.
\<close>

definition delete_bounties :: "int \<Rightarrow> database \<Rightarrow> js_error + database" where
  "delete_bounties bountyId db =
     (if \<exists>c \<in> set (bounty_claims db). bounty_id c = bountyId \<and>
            bountyId \<in> b_id ` set (bounties db)
      then Inl (PgError ''23503'')
      else Inr (db\<lparr>bounties := filter (\<lambda>b. b_id b \<noteq> bountyId) (bounties db)\<rparr>))"

definition delete_bounty_claims :: "int \<Rightarrow> database \<Rightarrow> database" where
  "delete_bounty_claims bountyId db =
     db\<lparr>bounty_claims := filter (\<lambda>c. bounty_id c \<noteq> bountyId) (bounty_claims db)\<rparr>"

text \<open>
  The notices after the commit (lines 728-740): each call has its own \<^verbatim>\<open>try\<close>, a
  failure is logged and the loop goes on.
\<close>

fun notify_claimants ::
  "github \<Rightarrow> (int \<Rightarrow> api_call) \<Rightarrow> int list \<Rightarrow> api_call list \<times> string list" where
  "notify_claimants gh mk [] = ([], [])"
| "notify_claimants gh mk (u # rest) =
     (case notify_claimants gh mk rest of
        (cs, errs) \<Rightarrow>
          if gh (mk u) then (mk u # cs, errs) else (cs, ''Error notifying claimant'' # errs))"

text \<open>
  \<^verbatim>\<open>DELETE /api/bounty/:id\<close> (lines 682-750). The statements between \<^verbatim>\<open>BEGIN\<close> and
  \<^verbatim>\<open>COMMIT\<close> work on the transaction's version \<open>tx\<close> of the store; \<^verbatim>\<open>COMMIT\<close>
  makes it the store, \<^verbatim>\<open>ROLLBACK\<close> keeps the store as it was. \<open>fault = Some n\<close> makes
  the \<open>n\<close>-th statement sent on the connection fail (1 \<^verbatim>\<open>BEGIN\<close>, 2 and 3 the two
  \<^verbatim>\<open>SELECT\<close>s, 4 and 5 the two \<^verbatim>\<open>DELETE\<close>s, 6 \<^verbatim>\<open>COMMIT\<close>), which is the case the
  handler's \<^verbatim>\<open>catch\<close> rolls back; an id out of range makes the first \<^verbatim>\<open>SELECT\<close>
  fail in the same way. \<^verbatim>\<open>SELECT DISTINCT\<close> promises no order; the model takes the
  claimants in table order.
\<close>

definition delete_failed :: "database \<Rightarrow> response run" where
  "delete_failed db =
     \<lparr>outcome = Response 500 (ErrorReply ''Failed to delete bounty''), store = db,
      posted = [], errlog = [''Error deleting bounty:'']\<rparr>"

definition delete_bounty ::
  "github \<Rightarrow> nat option \<Rightarrow> user \<Rightarrow> int \<Rightarrow> database \<Rightarrow> response run" where
  "delete_bounty gh fault req_user bountyId db =
     (if fault = Some 1 then delete_failed db
      else
        (let tx = db in
         if fault = Some 2 then delete_failed db
         else
           (case filter (\<lambda>b. b_id b = bountyId \<and> creator_id b = github_id req_user)
                   (bounties tx) of
              [] \<Rightarrow>
                if \<not> int4 bountyId then delete_failed db
                else
                  \<lparr>outcome = Response 404
                               (ErrorReply ''Bounty not found or you are not the owner''),
                   store = db, posted = [], errlog = []\<rparr>
            | bounty # _ \<Rightarrow>
                if fault = Some 3 then delete_failed db
                else
                  (let claimants =
                         remdups (map user_id
                                    (filter (\<lambda>c. bounty_id c = bountyId) (bounty_claims tx)))
                   in if fault = Some 4 then delete_failed db
                      else
                        (let tx1 = delete_bounty_claims bountyId tx
                         in if fault = Some 5 then delete_failed db
                            else
                              (case delete_bounties bountyId tx1 of
                                 Inl e \<Rightarrow> delete_failed db
                               | Inr tx2 \<Rightarrow>
                                   if fault = Some 6 then delete_failed db
                                   else
                                     (case notify_claimants gh
                                             (\<lambda>u. IssueComment (split_owner (repository bounty))
                                                    (split_repo (repository bounty))
                                                    (issue_id bounty) (BountyDeleted u bountyId))
                                             claimants of
                                        (cs, errs) \<Rightarrow>
                                          \<lparr>outcome = Response 200 (MessageReply
                                             ''Bounty deleted successfully and claimants notified''),
                                           store = tx2, posted = cs, errlog = errs\<rparr>)))))))"

section \<open>Webhook dispatcher\<close>

text \<open>
  \<^verbatim>\<open>gitHubApp.webhooks.verify\<close> belongs to a library: it resolves to a boolean or
  throws. The route awaits it and drops the boolean.
\<close>

datatype verify_result = Verified bool | VerifyThrew

text \<open>
  \<^verbatim>\<open>UPDATE users SET github_installation_id = NULL WHERE github_id = $1\<close> (lines 808-811).
\<close>

definition clear_installation :: "int \<Rightarrow> database \<Rightarrow> database" where
  "clear_installation githubId db =
     db\<lparr>users := map (\<lambda>u. if github_id u = githubId then u\<lparr>github_installation_id := None\<rparr> else u)
                    (users db)\<rparr>"

definition forget :: "(js_error + 'a) run \<Rightarrow> (js_error + unit) run" where
  "forget r =
     \<lparr>outcome = map_sum (\<lambda>e. e) (\<lambda>_. ()) (outcome r), store = store r, posted = posted r,
      errlog = errlog r\<rparr>"

definition nothing_to_do :: "database \<Rightarrow> (js_error + unit) run" where
  "nothing_to_do db = \<lparr>outcome = Inr (), store = db, posted = [], errlog = []\<rparr>"

definition threw :: "js_error \<Rightarrow> database \<Rightarrow> (js_error + unit) run" where
  "threw e db = \<lparr>outcome = Inl e, store = db, posted = [], errlog = []\<rparr>"

text \<open>
  The \<^verbatim>\<open>try\<close> block of the route after the verification (lines 801-841): the
  installation branch, then the chain on the event name and the action.
\<close>

definition dispatch :: "github \<Rightarrow> string \<Rightarrow> payload \<Rightarrow> database \<Rightarrow> (js_error + unit) run" where
  "dispatch gh event p db =
     (let db1 = (if event = ''installation'' \<and> action p = ''deleted''
                 then clear_installation (sender_id p) db else db)
      in if event = ''issue_comment'' \<and> action p = ''created'' then
           (case comment p of
              None \<Rightarrow> threw TypeError db1
            | Some body \<Rightarrow>
                (case issue p of
                   None \<Rightarrow> threw TypeError db1
                 | Some i \<Rightarrow>
                     if is_pull_request i
                     then (if startsWith body ''/claim-bounty''
                           then handleBountyClaim gh p db1 else nothing_to_do db1)
                     else (if startsWith body ''/create-bounty''
                           then forget (handleBountyCreation gh p db1) else nothing_to_do db1)))
         else if event = ''issues'' \<and> action p = ''opened'' then
           (case issue p of
              None \<Rightarrow> threw TypeError db1
            | Some i \<Rightarrow>
                (case issue_body i of
                   None \<Rightarrow> nothing_to_do db1
                 | Some issueDescription \<Rightarrow>
                     if issueDescription \<noteq> [] \<and> includes_str issueDescription ''/create-bounty''
                     then forget (handleBountyCreation gh p db1) else nothing_to_do db1))
         else if event = ''pull_request'' \<and> action p = ''opened'' then
           (case pull_request_of p of
              None \<Rightarrow> threw TypeError db1
            | Some pr \<Rightarrow>
                (case pr_body pr of
                   None \<Rightarrow> nothing_to_do db1
                 | Some prBody \<Rightarrow>
                     if prBody \<noteq> [] \<and> includes_str prBody ''/claim-bounty''
                     then handleBountyClaim gh p db1 else nothing_to_do db1))
         else nothing_to_do db1)"

text \<open>
  \<^verbatim>\<open>POST /api/github/webhooks\<close> (lines 794-848): status 200 when the \<^verbatim>\<open>try\<close> block
  ran to its end, the \<^verbatim>\<open>catch\<close> logs and answers 500.
\<close>

definition webhooks ::
  "github \<Rightarrow> verify_result \<Rightarrow> string \<Rightarrow> payload \<Rightarrow> database \<Rightarrow> response run" where
  "webhooks gh verify event p db =
     (case verify of
        VerifyThrew \<Rightarrow>
          \<lparr>outcome = Response 500 (ErrorReply ''Failed to process webhook''), store = db,
           posted = [], errlog = [''Error processing webhook:'']\<rparr>
      | Verified _ \<Rightarrow>
          (let r = dispatch gh event p db
           in case outcome r of
                Inl e \<Rightarrow>
                  \<lparr>outcome = Response 500 (ErrorReply ''Failed to process webhook''),
                   store = store r, posted = posted r,
                   errlog = errlog r @ [''Error processing webhook:'']\<rparr>
              | Inr _ \<Rightarrow>
                  \<lparr>outcome = Response 200 (Sent ''Webhook received''), store = store r,
                   posted = posted r, errlog = errlog r\<rparr>))"

section \<open>Account routes the bounty handlers depend on\<close>

text \<open>
  The OAuth callback upserts the user (lines 251-276: \<^verbatim>\<open>INSERT ... ON CONFLICT (github_id)
  DO UPDATE\<close>, which leaves the installation and the address of an existing row alone), and
  \<^verbatim>\<open>POST /api/user/set_solana-address\<close> (lines 399-414) stores the payout address.
\<close>

definition register_user :: "int \<Rightarrow> database \<Rightarrow> database" where
  "register_user githubId db =
     (if githubId \<in> github_id ` set (users db) then db
      else db\<lparr>users := users db @
                 [\<lparr>github_id = githubId, github_installation_id = None,
                   solana_address = None\<rparr>]\<rparr>)"

definition set_solana_address :: "user \<Rightarrow> string option \<Rightarrow> database \<Rightarrow> database" where
  "set_solana_address req_user solanaAddress db =
     db\<lparr>users := map (\<lambda>u. if github_id u = github_id req_user
                          then u\<lparr>solana_address := solanaAddress\<rparr> else u) (users db)\<rparr>"

section \<open>States of the store\<close>

text \<open>The store right after \<^verbatim>\<open>setupDatabase\<close> on a fresh database.\<close>

definition fresh :: database where
  "fresh = \<lparr>users = [], bounties = [], bounty_claims = [], bounties_id_seq = 0,
            bounty_claims_id_seq = 0\<rparr>"

text \<open>
  One request handled alone, with any arguments and any behaviour of GitHub: the store
  before and after. \<open>creation_insert\<close> is a creation whose pre-check ran before another
  request committed: its \<^verbatim>\<open>INSERT\<close>, trigger included, sees the present store.
\<close>

inductive step :: "database \<Rightarrow> database \<Rightarrow> bool" where
  register: "step db (register_user githubId db)"
| address: "step db (set_solana_address req_user solanaAddress db)"
| creation: "step db (store (handleBountyCreation gh p db))"
| creation_insert: "step db (store (handleBountyCreation_insert gh p i amt db))"
| claiming: "step db (store (handleBountyClaim gh p db))"
| webhook: "step db (store (webhooks gh verify event p db))"
| approval: "step db (store (approve_bounty_verify req_user bountyId claimantId db))"
| amount_update: "step db (store (update_bounty gh req_user bountyId newAmount db))"
| completion: "step db (store (complete_bounty bountyId db))"
| deletion: "step db (store (delete_bounty gh fault req_user bountyId db))"

text \<open>The states of the store when no two requests overlap.\<close>

inductive serial :: "database \<Rightarrow> bool" where
  start: "serial fresh"
| request: "serial db \<Longrightarrow> step db db' \<Longrightarrow> serial db'"

text \<open>
  The states of the store when requests may overlap. A history lists the committed states,
  the latest first. Besides a request handled alone, a creation may commit whose trigger
  read an earlier committed state \<open>seen\<close>, because its \<^verbatim>\<open>INSERT\<close> began before the
  requests in between committed.
\<close>

inductive history :: "database list \<Rightarrow> bool" where
  start: "history [fresh]"
| alone: "history (db # past) \<Longrightarrow> step db db' \<Longrightarrow> history (db' # db # past)"
| overlapping:
    "history (db # past) \<Longrightarrow> seen \<in> set (db # past) \<Longrightarrow>
     history (store (handleBountyCreation_overlapping gh p i amt seen db) # db # past)"

definition reachable :: "database \<Rightarrow> bool" where
  "reachable db = (\<exists>past. history (db # past))"

text \<open>The open bounties of an issue, and the invariant: no issue has two of them.\<close>

definition open_bounties :: "int \<Rightarrow> bounty list \<Rightarrow> bounty list" where
  "open_bounties issueId bs = filter (\<lambda>b. issue_id b = issueId \<and> status b = Open) bs"

definition unique_open_bounty :: "database \<Rightarrow> bool" where
  "unique_open_bounty db = (\<forall>issueId. length (open_bounties issueId (bounties db)) \<le> 1)"

text \<open>
  The command syntax in the words of the specification: somewhere in the text stands the
  command token, in any letter case, followed by white space and a decimal digit.
\<close>

definition has_command :: "string \<Rightarrow> string \<Rightarrow> bool" where
  "has_command tok text =
     (\<exists>before t ws d after.
        text = before @ t @ ws @ d # after \<and> map to_upper t = map to_upper tok \<and>
        ws \<noteq> [] \<and> (\<forall>c \<in> set ws. is_space c) \<and> is_digit d)"

text \<open>What a deletion removes: the claims of the bounty and the bounty.\<close>

definition without_bounty :: "int \<Rightarrow> database \<Rightarrow> database" where
  "without_bounty bountyId db =
     db\<lparr>bounties := filter (\<lambda>b. b_id b \<noteq> bountyId) (bounties db),
        bounty_claims := filter (\<lambda>c. bounty_id c \<noteq> bountyId) (bounty_claims db)\<rparr>"

section \<open>Example data\<close>

text \<open>
  The scenarios of the specification: U1 (101) owns bounty 9 on issue 42 of \<^verbatim>\<open>org/repo\<close>,
  U2 (102) and U3 (103) are contributors, pull requests 7 and 8 claim the bounty.
\<close>

definition U1 :: user where
  "U1 = \<lparr>github_id = 101, github_installation_id = Some ''5001'',
         solana_address = Some ''walletA''\<rparr>"

definition U2 :: user where
  "U2 = \<lparr>github_id = 102, github_installation_id = None, solana_address = Some ''walletB''\<rparr>"

definition U3 :: user where
  "U3 = \<lparr>github_id = 103, github_installation_id = None, solana_address = Some ''walletC''\<rparr>"

definition bounty9 :: "bounty_status \<Rightarrow> bounty" where
  "bounty9 st =
     \<lparr>b_id = 9, issue_id = 4242, amount = 500, status = st, repository = ''org/repo'',
      issue_title = ''Crash on start'', issue_url = ''https://github.com/org/repo/issues/42'',
      creator_id = 101, claimed_by = None\<rparr>"

definition claim7 :: claim where
  "claim7 = \<lparr>c_id = 1, bounty_id = 9, user_id = 102, pull_request = 7\<rparr>"

definition claim8 :: claim where
  "claim8 = \<lparr>c_id = 2, bounty_id = 9, user_id = 103, pull_request = 8\<rparr>"

definition example_db :: "bounty_status \<Rightarrow> claim list \<Rightarrow> database" where
  "example_db st cs =
     \<lparr>users = [U1, U2, U3], bounties = [bounty9 st], bounty_claims = cs,
      bounties_id_seq = 9, bounty_claims_id_seq = 2\<rparr>"

definition issue42 :: "string option \<Rightarrow> issue_payload" where
  "issue42 body =
     \<lparr>issue_gid = 4242, issue_number = 42, issue_body = body, title = ''Crash on start'',
      html_url = ''https://github.com/org/repo/issues/42'', is_pull_request = False\<rparr>"

definition issue_opened :: "string \<Rightarrow> payload" where
  "issue_opened body =
     \<lparr>action = ''opened'', comment = None, issue = Some (issue42 (Some body)),
      pull_request_of = None, sender_id = 101, owner_login = ''org'', repo_name = ''repo'',
      full_name = ''org/repo''\<rparr>"

definition issue_commented :: "string \<Rightarrow> payload" where
  "issue_commented body =
     \<lparr>action = ''created'', comment = Some body, issue = Some (issue42 None),
      pull_request_of = None, sender_id = 101, owner_login = ''org'', repo_name = ''repo'',
      full_name = ''org/repo''\<rparr>"

definition pr7_opened :: "nat \<Rightarrow> payload" where
  "pr7_opened files =
     \<lparr>action = ''opened'', comment = None, issue = None,
      pull_request_of = Some \<lparr>pr_number = 7, pr_body = Some ''/claim-bounty 9'',
                              head_sha = ''c0ffee'', changed_files = files\<rparr>,
      sender_id = 102, owner_login = ''org'', repo_name = ''repo'', full_name = ''org/repo''\<rparr>"

definition pr7_commented :: payload where
  "pr7_commented =
     \<lparr>action = ''created'', comment = Some ''/claim-bounty 9'',
      issue = Some \<lparr>issue_gid = 7007, issue_number = 7, issue_body = None,
                    title = ''Fix the crash'', html_url = ''https://github.com/org/repo/pull/7'',
                    is_pull_request = True\<rparr>,
      pull_request_of = None, sender_id = 102, owner_login = ''org'', repo_name = ''repo'',
      full_name = ''org/repo''\<rparr>"

definition registered :: database where
  "registered = register_user 101 fresh"

definition github_up :: github where
  "github_up c = True"

definition github_down :: github where
  "github_down c = False"

definition github_rejects_pr7 :: github where
  "github_rejects_pr7 c = (case c of ReviewComment _ _ n _ _ _ \<Rightarrow> n \<noteq> 7 | _ \<Rightarrow> True)"

text \<open>
  Two deliveries for issue 42 that overlap: the issue is opened with
  \<^verbatim>\<open>/create-bounty 500\<close> in its body, and the same command arrives in a comment whose
  pre-check and trigger both read the store before the first bounty is committed.
\<close>

definition first_creation :: "(js_error + int option) run" where
  "first_creation =
     handleBountyCreation github_up (issue_opened ''please fix /create-bounty 500'') registered"

definition second_creation :: "(js_error + int option) run" where
  "second_creation =
     handleBountyCreation_overlapping github_up (issue_commented ''/create-bounty 500'')
       (issue42 None) 500 registered (store first_creation)"

section \<open>Properties\<close>

lemmas example_defs =
  U1_def U2_def U3_def bounty9_def claim7_def claim8_def example_db_def issue42_def
  issue_opened_def issue_commented_def pr7_opened_def pr7_commented_def
  github_up_def github_down_def github_rejects_pr7_def

subsection \<open>Statements keep the invariant\<close>

lemma insert_bounty_rows:
  "bounties (snd (insert_bounty issueId amt st userId repo ttl url db)) = bounties db \<or>
   (bounties (snd (insert_bounty issueId amt st userId repo ttl url db)) =
      bounties db @ [\<lparr>b_id = bounties_id_seq db + 1, issue_id = issueId, amount = amt,
                       status = st, repository = repo, issue_title = ttl, issue_url = url,
                       creator_id = userId, claimed_by = None\<rparr>] \<and>
    (st = Open \<longrightarrow> (\<forall>b \<in> set (bounties db). issue_id b = issueId \<longrightarrow> status b \<noteq> Open)))"
proof -
  have "b_id b \<noteq> bounties_id_seq db + 1"
    if "bounties_id_seq db + 1 \<notin> b_id ` set (bounties db)" "b \<in> set (bounties db)" for b
    using that by (auto simp: image_iff)
  then show ?thesis
    by (auto simp: insert_bounty_def Let_def check_unique_open_bounty_def)
qed

lemma insert_bounty_unique:
  assumes "unique_open_bounty db"
  shows "unique_open_bounty (snd (insert_bounty issueId amt st userId repo ttl url db))"
proof -
  let ?db' = "snd (insert_bounty issueId amt st userId repo ttl url db)"
  from insert_bounty_rows [of issueId amt st userId repo ttl url db]
  show ?thesis
  proof (elim disjE conjE)
    assume "bounties ?db' = bounties db"
    with assms show ?thesis by (simp add: unique_open_bounty_def)
  next
    assume rows: "bounties ?db' =
      bounties db @ [\<lparr>b_id = bounties_id_seq db + 1, issue_id = issueId, amount = amt,
                       status = st, repository = repo, issue_title = ttl, issue_url = url,
                       creator_id = userId, claimed_by = None\<rparr>]"
      and fresh: "st = Open \<longrightarrow> (\<forall>b \<in> set (bounties db). issue_id b = issueId \<longrightarrow> status b \<noteq> Open)"
    have "open_bounties issueId (bounties db) = []" if "st = Open"
      using fresh that by (auto simp: open_bounties_def filter_empty_conv)
    with assms show ?thesis
      by (auto simp: rows unique_open_bounty_def open_bounties_def)
  qed
qed

lemma insert_bounty_no_row:
  assumes "b \<in> set (bounties db)" "issue_id b = issueId" "status b = Open"
  shows "bounties (snd (insert_bounty issueId amt Open userId repo ttl url db)) = bounties db"
  using insert_bounty_rows [of issueId amt Open userId repo ttl url db] assms by blast

lemma length_filter_map_le:
  assumes "\<And>x. P (g x) \<Longrightarrow> P x"
  shows "length (filter P (map g xs)) \<le> length (filter P xs)"
  using assms by (induction xs) auto

lemma length_filter_filter_le: "length (filter P (filter Q xs)) \<le> length (filter P xs)"
  by (induction xs) auto

lemma update_bounties_unique:
  assumes "unique_open_bounty db" "update_bounties f bountyId db = Inr db'"
    and "\<And>b. issue_id (f b) = issue_id b" "\<And>b. status (f b) = Open \<Longrightarrow> status b = Open"
  shows "unique_open_bounty db'"
proof -
  have db': "bounties db' = map (\<lambda>b. if b_id b = bountyId then f b else b) (bounties db)"
    using assms(2) by (auto simp: update_bounties_def split: if_splits)
  have "length (open_bounties i (bounties db')) \<le> length (open_bounties i (bounties db))" for i
    unfolding db' open_bounties_def
    by (rule length_filter_map_le) (auto simp: assms(3) dest: assms(4) split: if_splits)
  then show ?thesis
    using assms(1) unfolding unique_open_bounty_def by (meson le_trans)
qed

lemma filter_unique:
  assumes "unique_open_bounty db" "bounties db' = filter Q (bounties db)"
  shows "unique_open_bounty db'"
proof -
  have "length (open_bounties i (bounties db')) \<le> length (open_bounties i (bounties db))" for i
    unfolding assms(2) open_bounties_def by (rule length_filter_filter_le)
  then show ?thesis
    using assms(1) unfolding unique_open_bounty_def by (meson le_trans)
qed

lemma same_bounties_unique:
  "unique_open_bounty db \<Longrightarrow> bounties db' = bounties db \<Longrightarrow> unique_open_bounty db'"
  by (simp add: unique_open_bounty_def)

subsection \<open>Approval\<close>

lemma update_bounties_not_open:
  assumes "\<And>b. status (f b) \<noteq> Open"
  shows "update_bounties f bountyId db =
           Inr (db\<lparr>bounties := map (\<lambda>b. if b_id b = bountyId then f b else b) (bounties db)\<rparr>)"
  using assms by (simp add: update_bounties_def check_unique_open_bounty_def)

lemma filter_id_map_update:
  assumes "\<And>b. b_id (f b) = b_id b"
  shows "filter (\<lambda>b. b_id b = bountyId) (map (\<lambda>b. if b_id b = bountyId then f b else b) bs) =
         map f (filter (\<lambda>b. b_id b = bountyId) bs)"
  using assms by (induction bs) auto

lemma approve_succeeds:
  assumes bounty: "filter (\<lambda>b. b_id b = bountyId) (bounties db) = bounty # rest"
    and cr: "creator_id bounty = github_id req_user"
    and claimed: "\<exists>c \<in> set (bounty_claims db). bounty_id c = bountyId \<and> user_id c = claimantId"
    and ow: "filter (\<lambda>u. github_id u = creator_id bounty) (users db) = owner # os"
    and cl: "filter (\<lambda>u. github_id u = claimantId) (users db) = claimant # cs"
    and ad: "solana_address owner = Some src" "src \<noteq> []"
            "solana_address claimant = Some dst" "dst \<noteq> []"
  shows "approve_bounty_verify req_user bountyId claimantId db =
            \<lparr>outcome = Response 200 (Payout src dst (amount bounty) bountyId),
             store = db\<lparr>bounties :=
                        map (\<lambda>b. if b_id b = bountyId
                                 then b\<lparr>status := PaymentPending, claimed_by := Some claimantId\<rparr>
                                 else b) (bounties db)\<rparr>,
             posted = [], errlog = []\<rparr>"
proof -
  from claimed have claimed':
    "filter (\<lambda>c. bounty_id c = bountyId \<and> user_id c = claimantId) (bounty_claims db) \<noteq> []"
    by (auto simp: filter_empty_conv)
  have upd: "update_bounties (\<lambda>b. b\<lparr>status := PaymentPending, claimed_by := Some claimantId\<rparr>)
               bountyId db =
             Inr (db\<lparr>bounties :=
                        map (\<lambda>b. if b_id b = bountyId
                                 then b\<lparr>status := PaymentPending, claimed_by := Some claimantId\<rparr>
                                 else b) (bounties db)\<rparr>)"
    by (rule update_bounties_not_open) simp
  have own: "filter (\<lambda>u. github_id u = github_id req_user) (users db) = owner # os"
    using ow unfolding cr .
  from cr own cl ad show ?thesis
    unfolding approve_bounty_verify_def by (simp add: bounty claimed' upd)
qed

text \<open>
  C5. When the requester is the creator of the bounty, the claimant holds a claim on it and
  both have a payout address that is neither \<^verbatim>\<open>null\<close> nor empty, the approval answers
  with the payout instruction (creator's address, claimant's address, amount) and leaves
  the store with status "payment pending" and \<open>claimed_by\<close> the claimant on the bounty,
  nothing else changed. A requester who is not the creator gets an error response (400
  when the claimant holds no claim on the bounty, 500 when on top of that the claimant id
  is outside the INTEGER range, 401 otherwise) and the store stays as it was.
\<close>

theorem approve_by_creator:
  assumes "filter (\<lambda>b. b_id b = bountyId) (bounties db) = bounty # rest"
  shows "(creator_id bounty = github_id req_user \<and>
          (\<exists>c \<in> set (bounty_claims db). bounty_id c = bountyId \<and> user_id c = claimantId) \<and>
          filter (\<lambda>u. github_id u = creator_id bounty) (users db) = owner # os \<and>
          filter (\<lambda>u. github_id u = claimantId) (users db) = claimant # cs \<and>
          solana_address owner = Some src \<and> src \<noteq> [] \<and>
          solana_address claimant = Some dst \<and> dst \<noteq> []
          \<longrightarrow>
          approve_bounty_verify req_user bountyId claimantId db =
            \<lparr>outcome = Response 200 (Payout src dst (amount bounty) bountyId),
             store = db\<lparr>bounties :=
                        map (\<lambda>b. if b_id b = bountyId
                                 then b\<lparr>status := PaymentPending, claimed_by := Some claimantId\<rparr>
                                 else b) (bounties db)\<rparr>,
             posted = [], errlog = []\<rparr>) \<and>
         (creator_id bounty \<noteq> github_id req_user \<longrightarrow>
            store (approve_bounty_verify req_user bountyId claimantId db) = db \<and>
            outcome (approve_bounty_verify req_user bountyId claimantId db) \<in>
              {Response 400 (ErrorReply ''Claimant has not claimed this bounty''),
               Response 401 (ErrorReply ''Unauthorized''),
               Response 500 (ErrorReply ''Failed to approve bounty'')})"
proof (intro conjI impI)
  assume "creator_id bounty = github_id req_user \<and>
          (\<exists>c \<in> set (bounty_claims db). bounty_id c = bountyId \<and> user_id c = claimantId) \<and>
          filter (\<lambda>u. github_id u = creator_id bounty) (users db) = owner # os \<and>
          filter (\<lambda>u. github_id u = claimantId) (users db) = claimant # cs \<and>
          solana_address owner = Some src \<and> src \<noteq> [] \<and>
          solana_address claimant = Some dst \<and> dst \<noteq> []"
  then show "approve_bounty_verify req_user bountyId claimantId db =
            \<lparr>outcome = Response 200 (Payout src dst (amount bounty) bountyId),
             store = db\<lparr>bounties :=
                        map (\<lambda>b. if b_id b = bountyId
                                 then b\<lparr>status := PaymentPending, claimed_by := Some claimantId\<rparr>
                                 else b) (bounties db)\<rparr>,
             posted = [], errlog = []\<rparr>"
    using approve_succeeds [OF assms] by blast
next
  assume "creator_id bounty \<noteq> github_id req_user"
  then show "store (approve_bounty_verify req_user bountyId claimantId db) = db"
    unfolding approve_bounty_verify_def by (simp add: assms)
next
  assume "creator_id bounty \<noteq> github_id req_user"
  then show "outcome (approve_bounty_verify req_user bountyId claimantId db) \<in>
              {Response 400 (ErrorReply ''Claimant has not claimed this bounty''),
               Response 401 (ErrorReply ''Unauthorized''),
               Response 500 (ErrorReply ''Failed to approve bounty'')}"
    unfolding approve_bounty_verify_def by (simp add: assms)
qed

theorem approve_by_creator_witness:
  "approve_bounty_verify U1 9 102 (example_db Open [claim7]) =
     \<lparr>outcome = Response 200 (Payout ''walletA'' ''walletB'' 500 9),
      store = \<lparr>users = [U1, U2, U3],
               bounties = [(bounty9 PaymentPending)\<lparr>claimed_by := Some 102\<rparr>],
               bounty_claims = [claim7], bounties_id_seq = 9, bounty_claims_id_seq = 2\<rparr>,
      posted = [], errlog = []\<rparr> \<and>
   store (approve_bounty_verify U2 9 102 (example_db Open [claim7])) = example_db Open [claim7] \<and>
   outcome (approve_bounty_verify U2 9 102 (example_db Open [claim7])) =
     Response 401 (ErrorReply ''Unauthorized'') \<and>
   store (approve_bounty_verify U2 9 2147483648 (example_db Open [claim7])) =
     example_db Open [claim7] \<and>
   outcome (approve_bounty_verify U2 9 2147483648 (example_db Open [claim7])) =
     Response 500 (ErrorReply ''Failed to approve bounty'')"
proof -
  have row: "filter (\<lambda>b. b_id b = 9) (bounties (example_db Open [claim7])) = [bounty9 Open]"
    by (simp add: example_defs)
  have yes: "creator_id (bounty9 Open) = github_id U1 \<and>
          (\<exists>c \<in> set (bounty_claims (example_db Open [claim7])). bounty_id c = 9 \<and> user_id c = 102) \<and>
          filter (\<lambda>u. github_id u = creator_id (bounty9 Open)) (users (example_db Open [claim7]))
            = U1 # [] \<and>
          filter (\<lambda>u. github_id u = 102) (users (example_db Open [claim7])) = U2 # [] \<and>
          solana_address U1 = Some ''walletA'' \<and> ''walletA'' \<noteq> [] \<and>
          solana_address U2 = Some ''walletB'' \<and> ''walletB'' \<noteq> []"
    by (simp add: example_defs)
  have no: "creator_id (bounty9 Open) \<noteq> github_id U2"
    by (simp add: example_defs)
  from approve_by_creator [OF row, of U1 102 U1 "[]" U2 "[]" "''walletA''" "''walletB''"] yes
  have a: "approve_bounty_verify U1 9 102 (example_db Open [claim7]) =
            \<lparr>outcome = Response 200 (Payout ''walletA'' ''walletB'' (amount (bounty9 Open)) 9),
             store = (example_db Open [claim7])\<lparr>bounties :=
                        map (\<lambda>b. if b_id b = 9
                                 then b\<lparr>status := PaymentPending, claimed_by := Some 102\<rparr>
                                 else b) (bounties (example_db Open [claim7]))\<rparr>,
             posted = [], errlog = []\<rparr>"
    by blast
  from approve_by_creator [OF row, of U2 102 U1 "[]" U2 "[]" "''walletA''" "''walletB''"] no
  have b: "store (approve_bounty_verify U2 9 102 (example_db Open [claim7])) =
             example_db Open [claim7]"
    by blast
  have c: "outcome (approve_bounty_verify U2 9 102 (example_db Open [claim7])) =
     Response 401 (ErrorReply ''Unauthorized'')"
    by (simp add: approve_bounty_verify_def example_defs)
  from approve_by_creator [OF row, of U2 2147483648 U1 "[]" U2 "[]" "''walletA''" "''walletB''"] no
  have d: "store (approve_bounty_verify U2 9 2147483648 (example_db Open [claim7])) =
             example_db Open [claim7]"
    by blast
  have e: "outcome (approve_bounty_verify U2 9 2147483648 (example_db Open [claim7])) =
     Response 500 (ErrorReply ''Failed to approve bounty'')"
    by (simp add: approve_bounty_verify_def int4_def example_defs)
  show ?thesis
    unfolding a using b c d e by (simp add: example_defs)
qed

text \<open>
  C10. The approval never looks at the status of the bounty: whatever it is, open,
  payment pending or completed, the creator's approval of a claimant who holds a claim
  succeeds (both payout addresses set) and the rows of that bounty come out with status
  "payment pending" and \<open>claimed_by\<close> the claimant. A completed bounty thus goes back to
  "payment pending".
\<close>

theorem approve_any_status:
  assumes "filter (\<lambda>b. b_id b = bountyId) (bounties db) = bounty # rest"
    and "status bounty = st"
    and "creator_id bounty = github_id req_user"
    and "\<exists>c \<in> set (bounty_claims db). bounty_id c = bountyId \<and> user_id c = claimantId"
    and "filter (\<lambda>u. github_id u = creator_id bounty) (users db) = owner # os"
    and "filter (\<lambda>u. github_id u = claimantId) (users db) = claimant # cs"
    and "solana_address owner = Some src" "src \<noteq> []"
    and "solana_address claimant = Some dst" "dst \<noteq> []"
  shows "outcome (approve_bounty_verify req_user bountyId claimantId db) =
           Response 200 (Payout src dst (amount bounty) bountyId) \<and>
         filter (\<lambda>b. b_id b = bountyId)
           (bounties (store (approve_bounty_verify req_user bountyId claimantId db))) =
           map (\<lambda>b. b\<lparr>status := PaymentPending, claimed_by := Some claimantId\<rparr>) (bounty # rest)"
proof -
  note run = approve_succeeds [OF assms(1) assms(3-10)]
  have "filter (\<lambda>b. b_id b = bountyId)
          (map (\<lambda>b. if b_id b = bountyId
                    then b\<lparr>status := PaymentPending, claimed_by := Some claimantId\<rparr> else b)
             (bounties db)) =
        map (\<lambda>b. b\<lparr>status := PaymentPending, claimed_by := Some claimantId\<rparr>)
          (filter (\<lambda>b. b_id b = bountyId) (bounties db))"
    by (rule filter_id_map_update) simp
  then show ?thesis
    by (simp add: run assms(1))
qed

theorem approve_any_status_witness:
  "outcome (approve_bounty_verify U1 9 102 (example_db Completed [claim7])) =
     Response 200 (Payout ''walletA'' ''walletB'' 500 9) \<and>
   map status (filter (\<lambda>b. b_id b = 9)
     (bounties (store (approve_bounty_verify U1 9 102 (example_db Completed [claim7]))))) =
     [PaymentPending]"
proof -
  have "outcome (approve_bounty_verify U1 9 102 (example_db Completed [claim7])) =
           Response 200 (Payout ''walletA'' ''walletB'' (amount (bounty9 Completed)) 9) \<and>
         filter (\<lambda>b. b_id b = 9)
           (bounties (store (approve_bounty_verify U1 9 102 (example_db Completed [claim7])))) =
           map (\<lambda>b. b\<lparr>status := PaymentPending, claimed_by := Some 102\<rparr>) (bounty9 Completed # [])"
    by (rule approve_any_status [where st = Completed and owner = U1 and os = "[]"
          and claimant = U2 and cs = "[]"]) (simp_all add: example_defs)
  then show ?thesis
    by (simp add: example_defs)
qed

subsection \<open>Handlers keep the invariant\<close>

lemma store_handleBountyCreation_insert:
  "store (handleBountyCreation_insert gh p i amt db) =
     snd (insert_bounty (issue_gid i) (of_nat amt) Open (sender_id p) (full_name p)
            (title i) (html_url i) db)"
  by (simp add: handleBountyCreation_insert_def Let_def split: prod.splits sum.splits)

lemma store_handleBountyCreation:
  "store (handleBountyCreation gh p db) = db \<or>
   (\<exists>i amt. store (handleBountyCreation gh p db) = store (handleBountyCreation_insert gh p i amt db))"
  by (auto simp: handleBountyCreation_def Let_def split: sum.splits option.splits)

lemma insert_bounty_claim_undefined_column:
  "insert_bounty_claim bountyId userId prNumber db = (Inl (PgError ''42703''), db)"
  by (simp add: insert_bounty_claim_def bounty_claims_columns_def)

lemma comment_and_return_store: "fst (snd (comment_and_return gh p c body db cs)) = db"
  by (simp add: comment_and_return_def split: sum.splits)

lemma claim_try_store: "fst (snd (claim_try gh p bountyId isPRComment db)) = db"
  by (simp add: claim_try_def Let_def comment_and_return_store
        insert_bounty_claim_undefined_column split: list.splits option.splits)

lemma store_handleBountyClaim: "store (handleBountyClaim gh p db) = db"
proof (cases "claim_bountyId p")
  case (Inl e)
  then show ?thesis by (simp add: handleBountyClaim_def)
next
  case (Inr v)
  obtain n isPR where v: "v = (n, isPR)" by (cases v)
  show ?thesis
  proof (cases n)
    case None
    with Inr v show ?thesis by (simp add: handleBountyClaim_def)
  next
    case (Some k)
    obtain r db' cs where t: "claim_try gh p (int k) isPR db = (r, db', cs)"
      by (cases "claim_try gh p (int k) isPR db")
    have db': "db' = db"
      using claim_try_store [of gh p "int k" isPR db] t by simp
    obtain r2 db2 cs2 where c: "comment_and_return gh p isPR AlreadyClaimed db cs = (r2, db2, cs2)"
      by (cases "comment_and_return gh p isPR AlreadyClaimed db cs")
    have db2: "db2 = db"
      using comment_and_return_store [of gh p isPR AlreadyClaimed db cs] c by simp
    show ?thesis
      using Inr v Some t c db' db2
      by (cases r) (simp_all add: handleBountyClaim_def)
  qed
qed

lemma bounties_clear_installation: "bounties (clear_installation u db) = bounties db"
  by (simp add: clear_installation_def)

lemma dispatch_cases:
  "\<exists>db1 \<in> {db, clear_installation (sender_id p) db}.
     dispatch gh event p db \<in>
       {handleBountyClaim gh p db1, forget (handleBountyCreation gh p db1),
        nothing_to_do db1, threw TypeError db1}"
proof -
  define db1 where "db1 = (if event = ''installation'' \<and> action p = ''deleted''
                 then clear_installation (sender_id p) db else db)"
  define A where "A = (event = ''issue_comment'' \<and> action p = ''created'')"
  define B where "B = (event = ''issues'' \<and> action p = ''opened'')"
  define C where "C = (event = ''pull_request'' \<and> action p = ''opened'')"
  have "db1 \<in> {db, clear_installation (sender_id p) db}"
    by (simp add: db1_def)
  moreover have "dispatch gh event p db \<in>
       {handleBountyClaim gh p db1, forget (handleBountyCreation gh p db1),
        nothing_to_do db1, threw TypeError db1}"
    unfolding dispatch_def Let_def db1_def [symmetric] A_def [symmetric] B_def [symmetric]
      C_def [symmetric]
    by (simp split: option.splits)
  ultimately show ?thesis by blast
qed

lemma store_dispatch:
  "bounties (store (dispatch gh event p db)) = bounties db \<or>
   store (dispatch gh event p db) = store (handleBountyCreation gh p db) \<or>
   store (dispatch gh event p db) =
     store (handleBountyCreation gh p (clear_installation (sender_id p) db))"
proof -
  have "bounties (store r) = bounties db \<or> store r = store (handleBountyCreation gh p db) \<or>
        store r = store (handleBountyCreation gh p (clear_installation (sender_id p) db))"
    if "r \<in> {handleBountyClaim gh p db1, forget (handleBountyCreation gh p db1),
               nothing_to_do db1, threw TypeError db1}"
       "db1 \<in> {db, clear_installation (sender_id p) db}" for r db1
  proof -
    from that(2) have b: "bounties db1 = bounties db"
      by (auto simp: bounties_clear_installation)
    from that(1) consider "r = handleBountyClaim gh p db1"
      | "r = forget (handleBountyCreation gh p db1)" | "r = nothing_to_do db1"
      | "r = threw TypeError db1" by blast
    then show ?thesis
    proof cases
      case 1
      then show ?thesis by (simp add: store_handleBountyClaim b)
    next
      case 2
      with that(2) show ?thesis by (auto simp: forget_def)
    next
      case 3
      then show ?thesis by (simp add: nothing_to_do_def b)
    next
      case 4
      then show ?thesis by (simp add: threw_def b)
    qed
  qed
  with dispatch_cases [of db p gh event] show ?thesis by blast
qed

lemma store_webhooks:
  "store (webhooks gh verify event p db) = db \<or>
   store (webhooks gh verify event p db) = store (dispatch gh event p db)"
  by (simp add: webhooks_def Let_def split: verify_result.splits sum.splits)

lemma handleBountyCreation_insert_unique:
  "unique_open_bounty db \<Longrightarrow> unique_open_bounty (store (handleBountyCreation_insert gh p i amt db))"
  by (simp add: store_handleBountyCreation_insert insert_bounty_unique)

lemma handleBountyCreation_unique:
  "unique_open_bounty db \<Longrightarrow> unique_open_bounty (store (handleBountyCreation gh p db))"
proof -
  assume u: "unique_open_bounty db"
  have "unique_open_bounty (store (handleBountyCreation_insert gh p i amt db))" for i amt
    using u by (rule handleBountyCreation_insert_unique)
  with u store_handleBountyCreation [of gh p db] show ?thesis
    by (elim disjE exE) simp_all
qed

lemma webhooks_unique:
  assumes "unique_open_bounty db"
  shows "unique_open_bounty (store (webhooks gh verify event p db))"
proof -
  have c: "unique_open_bounty (clear_installation (sender_id p) db)"
    using assms by (rule same_bounties_unique) (rule bounties_clear_installation)
  have "unique_open_bounty (store (dispatch gh event p db))"
    using store_dispatch [of gh event p db]
  proof (elim disjE)
    assume "bounties (store (dispatch gh event p db)) = bounties db"
    with assms show ?thesis by (rule same_bounties_unique)
  next
    assume "store (dispatch gh event p db) = store (handleBountyCreation gh p db)"
    with handleBountyCreation_unique [OF assms, of gh p] show ?thesis by simp
  next
    assume "store (dispatch gh event p db) =
      store (handleBountyCreation gh p (clear_installation (sender_id p) db))"
    with handleBountyCreation_unique [OF c, of gh p] show ?thesis by simp
  qed
  with assms store_webhooks [of gh verify event p db] show ?thesis
    by (elim disjE) simp_all
qed

lemma store_approve:
  "store (approve_bounty_verify req_user bountyId claimantId db) = db \<or>
   update_bounties (\<lambda>b. b\<lparr>status := PaymentPending, claimed_by := Some claimantId\<rparr>) bountyId db =
     Inr (store (approve_bounty_verify req_user bountyId claimantId db))"
  by (simp add: approve_bounty_verify_def split: list.splits option.splits sum.splits)

lemma approve_unique:
  assumes "unique_open_bounty db"
  shows "unique_open_bounty (store (approve_bounty_verify req_user bountyId claimantId db))"
proof -
  let ?r = "store (approve_bounty_verify req_user bountyId claimantId db)"
  have "unique_open_bounty ?r"
    if "update_bounties (\<lambda>b. b\<lparr>status := PaymentPending, claimed_by := Some claimantId\<rparr>)
          bountyId db = Inr ?r"
    using assms that by (rule update_bounties_unique) simp_all
  with assms store_approve [of req_user bountyId claimantId db] show ?thesis
    by (elim disjE) simp_all
qed

lemma update_amount_unique:
  assumes "unique_open_bounty db" "update_amount newAmount bountyId db = Inr db'"
  shows "unique_open_bounty db'"
proof (cases newAmount)
  case (Some a)
  with assms(2) have "update_bounties (\<lambda>b. b\<lparr>amount := a\<rparr>) bountyId db = Inr db'"
    by (simp add: update_amount_def)
  with assms(1) show ?thesis by (rule update_bounties_unique) simp_all
next
  case None
  with assms(2) have "update_bounties (\<lambda>b. b) bountyId db = Inr db'"
    by (simp add: update_amount_def split: sum.splits if_splits)
  with assms(1) show ?thesis by (rule update_bounties_unique) simp_all
qed

lemma store_update_bounty:
  "store (update_bounty gh req_user bountyId newAmount db) = db \<or>
   update_amount newAmount bountyId db = Inr (store (update_bounty gh req_user bountyId newAmount db))"
  by (simp add: update_bounty_def Let_def split: list.splits sum.splits prod.splits)

lemma update_bounty_unique:
  assumes "unique_open_bounty db"
  shows "unique_open_bounty (store (update_bounty gh req_user bountyId newAmount db))"
proof -
  let ?r = "store (update_bounty gh req_user bountyId newAmount db)"
  have "unique_open_bounty ?r" if "update_amount newAmount bountyId db = Inr ?r"
    using assms that by (rule update_amount_unique)
  with assms store_update_bounty [of gh req_user bountyId newAmount db] show ?thesis
    by (elim disjE) simp_all
qed

lemma complete_unique:
  assumes "unique_open_bounty db"
  shows "unique_open_bounty (store (complete_bounty bountyId db))"
proof (cases "update_bounties (\<lambda>b. b\<lparr>status := Completed\<rparr>) bountyId db")
  case (Inl e)
  with assms show ?thesis by (simp add: complete_bounty_def)
next
  case (Inr db')
  then have "unique_open_bounty db'"
    by (rule update_bounties_unique [OF assms]) simp_all
  with Inr assms show ?thesis by (simp add: complete_bounty_def)
qed

lemma delete_after_claims:
  "delete_bounties bountyId (delete_bounty_claims bountyId db) = Inr (without_bounty bountyId db)"
  by (simp add: delete_bounties_def delete_bounty_claims_def without_bounty_def)

lemma store_delete_bounty:
  "store (delete_bounty gh fault req_user bountyId db) = db \<or>
   store (delete_bounty gh fault req_user bountyId db) = without_bounty bountyId db"
  by (simp add: delete_bounty_def Let_def delete_failed_def delete_after_claims
        split: list.splits prod.splits)

lemma delete_unique:
  assumes "unique_open_bounty db"
  shows "unique_open_bounty (store (delete_bounty gh fault req_user bountyId db))"
proof -
  have "unique_open_bounty (without_bounty bountyId db)"
    by (rule filter_unique [OF assms]) (simp add: without_bounty_def)
  with assms store_delete_bounty [of gh fault req_user bountyId db] show ?thesis
    by (elim disjE) simp_all
qed

lemma step_unique: "step db db' \<Longrightarrow> unique_open_bounty db \<Longrightarrow> unique_open_bounty db'"
proof (induction rule: step.induct)
  case (register db githubId)
  from register.prems show ?case by (rule same_bounties_unique) (simp add: register_user_def)
next
  case (address db req_user solanaAddress)
  from address.prems show ?case by (rule same_bounties_unique) (simp add: set_solana_address_def)
next
  case (claiming db gh p)
  then show ?case by (simp add: store_handleBountyClaim)
next
  case (creation db gh p)
  from creation.prems show ?case by (rule handleBountyCreation_unique)
next
  case (creation_insert db gh p i amt)
  from creation_insert.prems show ?case by (rule handleBountyCreation_insert_unique)
next
  case (webhook db gh verify event p)
  from webhook.prems show ?case by (rule webhooks_unique)
next
  case (approval db req_user bountyId claimantId)
  from approval.prems show ?case by (rule approve_unique)
next
  case (amount_update db gh req_user bountyId newAmount)
  from amount_update.prems show ?case by (rule update_bounty_unique)
next
  case (completion db bountyId)
  from completion.prems show ?case by (rule complete_unique)
next
  case (deletion db gh fault req_user bountyId)
  from deletion.prems show ?case by (rule delete_unique)
qed

lemma serial_unique: "serial db \<Longrightarrow> unique_open_bounty db"
proof (induction rule: serial.induct)
  case start
  show ?case by (simp add: fresh_def unique_open_bounty_def open_bounties_def)
next
  case (request db db')
  from request.hyps(2) request.IH show ?case by (rule step_unique)
qed

subsection \<open>One open bounty per issue\<close>

lemma handleBountyCreation_duplicate:
  assumes "issue p = Some i" "open_bounties (issue_gid i) (bounties db) \<noteq> []"
  shows "store (handleBountyCreation gh p db) = db"
  using assms
  by (simp add: handleBountyCreation_def open_bounties_def Let_def
        split: sum.splits option.splits)

lemma handleBountyCreation_insert_duplicate:
  assumes "open_bounties (issue_gid i) (bounties db) \<noteq> []"
  shows "bounties (store (handleBountyCreation_insert gh p i amt db)) = bounties db"
proof -
  from assms obtain b where "b \<in> set (bounties db)" "issue_id b = issue_gid i" "status b = Open"
    by (auto simp: open_bounties_def filter_empty_conv)
  then show ?thesis
    unfolding store_handleBountyCreation_insert by (rule insert_bounty_no_row)
qed

text \<open>
  As long as no two requests overlap (bounty creation, also one whose pre-check is stale,
  claim, approval, amount update, completion, deletion, the webhook route and the account
  routes, in any order and with any arguments), no issue has more than one open bounty.
  And creating a bounty for an issue that has an open bounty adds no row to \<open>bounties\<close>,
  whether the pre-check stops the handler or the trigger stops the insert.
\<close>

lemma serial_one_open_bounty_per_issue:
  assumes "serial db"
  shows "(\<forall>issueId. length (open_bounties issueId (bounties db)) \<le> 1) \<and>
         (\<forall>gh p i amt.
            issue p = Some i \<and> open_bounties (issue_gid i) (bounties db) \<noteq> [] \<longrightarrow>
            bounties (store (handleBountyCreation gh p db)) = bounties db \<and>
            bounties (store (handleBountyCreation_insert gh p i amt db)) = bounties db)"
proof (intro conjI allI impI)
  fix issueId
  from serial_unique [OF assms]
  show "length (open_bounties issueId (bounties db)) \<le> 1"
    by (simp add: unique_open_bounty_def)
next
  fix gh :: github and p :: payload and i :: issue_payload and amt :: nat
  assume "issue p = Some i \<and> open_bounties (issue_gid i) (bounties db) \<noteq> []"
  then show "bounties (store (handleBountyCreation gh p db)) = bounties db"
    by (simp add: handleBountyCreation_duplicate)
next
  fix gh :: github and p :: payload and i :: issue_payload and amt :: nat
  assume "issue p = Some i \<and> open_bounties (issue_gid i) (bounties db) \<noteq> []"
  then show "bounties (store (handleBountyCreation_insert gh p i amt db)) = bounties db"
    by (simp add: handleBountyCreation_insert_duplicate)
qed

lemma regex_create_500:
  "regex_match ''/create-bounty'' ''please fix /create-bounty 500'' = Some ''500''"
  by (simp add: match_at_def to_upper_def is_space_def is_digit_def)

lemma regex_create_500_comment:
  "regex_match ''/create-bounty'' ''/create-bounty 500'' = Some ''500''"
  by (simp add: match_at_def to_upper_def is_space_def is_digit_def)

lemma parseInt_500: "parseInt ''500'' = 500"
  by (simp add: parseInt_def digit_val_def)

lemma scenario_A:
  "handleBountyCreation github_up (issue_opened ''please fix /create-bounty 500'')
     (register_user 101 fresh) =
   \<lparr>outcome = Inr (Some 1),
    store = \<lparr>users = [\<lparr>github_id = 101, github_installation_id = None, solana_address = None\<rparr>],
             bounties = [\<lparr>b_id = 1, issue_id = 4242, amount = 500, status = Open,
                          repository = ''org/repo'', issue_title = ''Crash on start'',
                          issue_url = ''https://github.com/org/repo/issues/42'',
                          creator_id = 101, claimed_by = None\<rparr>],
             bounty_claims = [], bounties_id_seq = 1, bounty_claims_id_seq = 0\<rparr>,
    posted = [IssueComment ''org'' ''repo'' 42 (BountyCreated 500 1)], errlog = []\<rparr>"
  by (simp add: handleBountyCreation_def creation_amount_def regex_create_500 parseInt_500
        handleBountyCreation_insert_def insert_bounty_def check_unique_open_bounty_def
        register_user_def fresh_def issue_opened_def issue42_def github_up_def Let_def
        del: regex_match.simps)

lemma insert_bounty_overlapping_alone:
  "insert_bounty_overlapping db issueId amt st userId repo ttl url db =
     insert_bounty issueId amt st userId repo ttl url db"
  by (simp add: insert_bounty_overlapping_def insert_bounty_def)

lemma handleBountyCreation_overlapping_alone:
  "handleBountyCreation_overlapping gh p i amt db db = handleBountyCreation_insert gh p i amt db"
  by (simp add: handleBountyCreation_overlapping_def handleBountyCreation_insert_def
        insert_bounty_overlapping_alone)

lemma first_creation_run:
  "first_creation =
   \<lparr>outcome = Inr (Some 1),
    store = \<lparr>users = [\<lparr>github_id = 101, github_installation_id = None, solana_address = None\<rparr>],
             bounties = [\<lparr>b_id = 1, issue_id = 4242, amount = 500, status = Open,
                          repository = ''org/repo'', issue_title = ''Crash on start'',
                          issue_url = ''https://github.com/org/repo/issues/42'',
                          creator_id = 101, claimed_by = None\<rparr>],
             bounty_claims = [], bounties_id_seq = 1, bounty_claims_id_seq = 0\<rparr>,
    posted = [IssueComment ''org'' ''repo'' 42 (BountyCreated 500 1)], errlog = []\<rparr>"
  by (simp add: first_creation_def registered_def scenario_A)

lemma second_creation_run:
  "second_creation =
   \<lparr>outcome = Inr (Some 2),
    store = \<lparr>users = [\<lparr>github_id = 101, github_installation_id = None, solana_address = None\<rparr>],
             bounties = [\<lparr>b_id = 1, issue_id = 4242, amount = 500, status = Open,
                          repository = ''org/repo'', issue_title = ''Crash on start'',
                          issue_url = ''https://github.com/org/repo/issues/42'',
                          creator_id = 101, claimed_by = None\<rparr>,
                         \<lparr>b_id = 2, issue_id = 4242, amount = 500, status = Open,
                          repository = ''org/repo'', issue_title = ''Crash on start'',
                          issue_url = ''https://github.com/org/repo/issues/42'',
                          creator_id = 101, claimed_by = None\<rparr>],
             bounty_claims = [], bounties_id_seq = 2, bounty_claims_id_seq = 0\<rparr>,
    posted = [IssueComment ''org'' ''repo'' 42 (BountyCreated 500 2)], errlog = []\<rparr>"
  by (simp add: second_creation_def first_creation_run handleBountyCreation_overlapping_def
        insert_bounty_overlapping_def check_unique_open_bounty_def registered_def
        register_user_def fresh_def issue_commented_def issue42_def github_up_def Let_def)

lemma second_creation_reachable: "reachable (store second_creation)"
proof -
  have h0: "history [fresh]"
    by (rule history.start)
  have s1: "step fresh registered"
    unfolding registered_def by (rule step.register)
  have h1: "history [registered, fresh]"
    by (rule history.alone [OF h0 s1])
  have s2: "step registered (store first_creation)"
    unfolding first_creation_def by (rule step.creation)
  have h2: "history [store first_creation, registered, fresh]"
    by (rule history.alone [OF h1 s2])
  have seen: "registered \<in> set [store first_creation, registered, fresh]"
    by simp
  have "history [store second_creation, store first_creation, registered, fresh]"
    unfolding second_creation_def by (rule history.overlapping [OF h2 seen])
  then show ?thesis
    unfolding reachable_def by blast
qed

text \<open>
  C1, at the failing input. User 101 is registered and the store has no bounty. Issue 42
  is opened with \<^verbatim>\<open>/create-bounty 500\<close> in its body, and the same command arrives in a
  comment on the issue while the first request is still at work: the pre-check and the
  trigger of the second request read the store before the first bounty is committed.
  Both requests return a bounty id, and the store they leave, a reachable one, holds two
  open bounties of the one issue.
\<close>

theorem overlapping_creations_two_open_bounties:
  "open_bounties 4242 (bounties registered) = [] \<and>
   outcome first_creation = Inr (Some 1) \<and>
   outcome second_creation = Inr (Some 2) \<and>
   reachable (store second_creation) \<and>
   map b_id (open_bounties 4242 (bounties (store second_creation))) = [1, 2] \<and>
   \<not> unique_open_bounty (store second_creation)"
proof -
  have two: "map b_id (open_bounties 4242 (bounties (store second_creation))) = [1, 2]"
    by (simp add: second_creation_run open_bounties_def)
  then have "length (open_bounties 4242 (bounties (store second_creation))) = 2"
    by (metis length_map length_Cons list.size(3) numeral_2_eq_2)
  then have "\<not> length (open_bounties 4242 (bounties (store second_creation))) \<le> 1"
    by simp
  then have "\<not> unique_open_bounty (store second_creation)"
    unfolding unique_open_bounty_def by blast
  moreover have "open_bounties 4242 (bounties registered) = []"
    by (simp add: registered_def register_user_def fresh_def open_bounties_def)
  ultimately show ?thesis
    using two second_creation_reachable
    by (simp add: first_creation_run second_creation_run)
qed

subsection \<open>A creation stopped by the trigger\<close>

lemma insert_bounty_trigger:
  assumes "b \<in> set (bounties db)" "issue_id b = issueId" "status b = Open"
    and "b_id b \<le> bounties_id_seq db"
  shows "insert_bounty issueId amt Open userId repo ttl url db =
           (Inl (PgError ''P0001''), db\<lparr>bounties_id_seq := bounties_id_seq db + 1\<rparr>)"
proof -
  have "check_unique_open_bounty
          \<lparr>b_id = bounties_id_seq db + 1, issue_id = issueId, amount = amt, status = Open,
           repository = repo, issue_title = ttl, issue_url = url, creator_id = userId,
           claimed_by = None\<rparr> db"
    unfolding check_unique_open_bounty_def using assms by (intro conjI bexI [of _ b]) simp_all
  then show ?thesis
    by (simp add: insert_bounty_def Let_def)
qed

text \<open>
  C3, as the code has it. When the \<^verbatim>\<open>INSERT\<close> of a creation meets an open bounty of the
  same issue (one whose id came from the sequence), the trigger raises, and the handler
  logs the error and throws it on to its caller: no row is added, no comment is posted.
\<close>

theorem creation_insert_rethrows:
  assumes "b \<in> set (bounties db)" "issue_id b = issue_gid i" "status b = Open"
    and "b_id b \<le> bounties_id_seq db"
  shows "handleBountyCreation_insert gh p i amt db =
           \<lparr>outcome = Inl (PgError ''P0001''),
            store = db\<lparr>bounties_id_seq := bounties_id_seq db + 1\<rparr>,
            posted = [], errlog = [''Error creating bounty:'']\<rparr>"
  by (simp add: handleBountyCreation_insert_def insert_bounty_trigger [OF assms])

theorem creation_insert_rethrows_witness:
  "handleBountyCreation_insert github_up (issue_commented ''/create-bounty 500'') (issue42 None)
     500 (example_db Open []) =
   \<lparr>outcome = Inl (PgError ''P0001''),
    store = \<lparr>users = [U1, U2, U3], bounties = [bounty9 Open], bounty_claims = [],
             bounties_id_seq = 10, bounty_claims_id_seq = 2\<rparr>,
    posted = [], errlog = [''Error creating bounty:'']\<rparr>"
proof -
  have "handleBountyCreation_insert github_up (issue_commented ''/create-bounty 500'')
          (issue42 None) 500 (example_db Open []) =
        \<lparr>outcome = Inl (PgError ''P0001''),
         store = (example_db Open [])\<lparr>bounties_id_seq := bounties_id_seq (example_db Open []) + 1\<rparr>,
         posted = [], errlog = [''Error creating bounty:'']\<rparr>"
    by (rule creation_insert_rethrows [where b = "bounty9 Open"])
       (simp_all add: example_db_def bounty9_def issue42_def)
  then show ?thesis
    by (simp add: example_db_def)
qed

theorem creation_insert_counterexample:
  "outcome (handleBountyCreation_insert github_up (issue_commented ''/create-bounty 500'')
     (issue42 None) 500 (example_db Open [])) = Inl (PgError ''P0001'') \<and>
   posted (handleBountyCreation_insert github_up (issue_commented ''/create-bounty 500'')
     (issue42 None) 500 (example_db Open [])) = [] \<and>
   outcome (handleBountyCreation github_up (issue_commented ''/create-bounty 500'')
     (example_db Open [])) = Inr None \<and>
   posted (handleBountyCreation github_up (issue_commented ''/create-bounty 500'')
     (example_db Open [])) = [IssueComment ''org'' ''repo'' 42 DuplicateOpenBounty]"
proof -
  have "insert_bounty 4242 500 Open 101 ''org/repo'' ''Crash on start''
          ''https://github.com/org/repo/issues/42'' (example_db Open []) =
        (Inl (PgError ''P0001''),
         (example_db Open [])\<lparr>bounties_id_seq := bounties_id_seq (example_db Open []) + 1\<rparr>)"
    by (rule insert_bounty_trigger [where b = "bounty9 Open"])
       (simp_all add: example_db_def bounty9_def)
  then have a: "handleBountyCreation_insert github_up (issue_commented ''/create-bounty 500'')
          (issue42 None) 500 (example_db Open []) =
        \<lparr>outcome = Inl (PgError ''P0001''),
         store = (example_db Open [])\<lparr>bounties_id_seq := bounties_id_seq (example_db Open []) + 1\<rparr>,
         posted = [], errlog = [''Error creating bounty:'']\<rparr>"
    by (simp add: handleBountyCreation_insert_def issue_commented_def issue42_def)
  have b: "handleBountyCreation github_up (issue_commented ''/create-bounty 500'')
             (example_db Open []) =
           \<lparr>outcome = Inr None, store = example_db Open [],
            posted = [IssueComment ''org'' ''repo'' 42 DuplicateOpenBounty], errlog = []\<rparr>"
    by (simp add: handleBountyCreation_def creation_amount_def regex_create_500_comment
          parseInt_500 issue_commented_def issue42_def example_db_def bounty9_def
          github_up_def Let_def del: regex_match.simps)
  show ?thesis
    by (simp add: a b)
qed

subsection \<open>Webhook acknowledgement\<close>

text \<open>
  C4, as the code has it. The route answers 200 "Webhook received" when the verification
  call and the routed handler both come back without throwing. When either throws, the
  \<^verbatim>\<open>catch\<close> logs the error and answers 500 "Failed to process webhook".
\<close>

theorem webhooks_acknowledgement:
  "outcome (webhooks gh verify event p db) =
     (if verify = VerifyThrew \<or> isl (outcome (dispatch gh event p db))
      then Response 500 (ErrorReply ''Failed to process webhook'')
      else Response 200 (Sent ''Webhook received'')) \<and>
   (verify = VerifyThrew \<or> isl (outcome (dispatch gh event p db)) \<longrightarrow>
      last (errlog (webhooks gh verify event p db)) = ''Error processing webhook:'')"
proof (cases verify)
  case VerifyThrew
  then show ?thesis by (simp add: webhooks_def)
next
  case (Verified ok)
  then show ?thesis
    by (cases "outcome (dispatch gh event p db)") (simp_all add: webhooks_def Let_def)
qed

lemma dispatch_creation_comment_fails:
  "dispatch github_down ''issues'' (issue_opened ''please fix /create-bounty 500'')
     (register_user 101 fresh) =
   \<lparr>outcome = Inl RequestError,
    store = \<lparr>users = [\<lparr>github_id = 101, github_installation_id = None, solana_address = None\<rparr>],
             bounties = [\<lparr>b_id = 1, issue_id = 4242, amount = 500, status = Open,
                          repository = ''org/repo'', issue_title = ''Crash on start'',
                          issue_url = ''https://github.com/org/repo/issues/42'',
                          creator_id = 101, claimed_by = None\<rparr>],
             bounty_claims = [], bounties_id_seq = 1, bounty_claims_id_seq = 0\<rparr>,
    posted = [], errlog = [''Error creating bounty:'']\<rparr>"
proof -
  have h: "handleBountyCreation github_down (issue_opened ''please fix /create-bounty 500'')
     (register_user 101 fresh) =
   \<lparr>outcome = Inl RequestError,
    store = \<lparr>users = [\<lparr>github_id = 101, github_installation_id = None, solana_address = None\<rparr>],
             bounties = [\<lparr>b_id = 1, issue_id = 4242, amount = 500, status = Open,
                          repository = ''org/repo'', issue_title = ''Crash on start'',
                          issue_url = ''https://github.com/org/repo/issues/42'',
                          creator_id = 101, claimed_by = None\<rparr>],
             bounty_claims = [], bounties_id_seq = 1, bounty_claims_id_seq = 0\<rparr>,
    posted = [], errlog = [''Error creating bounty:'']\<rparr>"
    by (simp add: handleBountyCreation_def creation_amount_def regex_create_500 parseInt_500
        handleBountyCreation_insert_def insert_bounty_def check_unique_open_bounty_def
        register_user_def fresh_def issue_opened_def issue42_def github_down_def Let_def
        del: regex_match.simps)
  have i: "includes_str ''please fix /create-bounty 500'' ''/create-bounty''"
    by simp
  have "dispatch github_down ''issues'' (issue_opened ''please fix /create-bounty 500'')
     (register_user 101 fresh) =
     forget (handleBountyCreation github_down (issue_opened ''please fix /create-bounty 500'')
       (register_user 101 fresh))"
    unfolding dispatch_def Let_def
    by (simp add: i issue_opened_def issue42_def del: includes_str.simps)
  then show ?thesis
    by (simp add: h forget_def)
qed

theorem webhooks_acknowledgement_witness:
  "outcome (webhooks github_up VerifyThrew ''issues''
      (issue_opened ''please fix /create-bounty 500'') (register_user 101 fresh)) =
     Response 500 (ErrorReply ''Failed to process webhook'') \<and>
   last (errlog (webhooks github_up VerifyThrew ''issues''
      (issue_opened ''please fix /create-bounty 500'') (register_user 101 fresh))) =
     ''Error processing webhook:''"
  using webhooks_acknowledgement [of github_up VerifyThrew "''issues''"
          "issue_opened ''please fix /create-bounty 500''" "register_user 101 fresh"]
  by simp

theorem webhooks_counterexample:
  "outcome (webhooks github_down (Verified True) ''issues''
      (issue_opened ''please fix /create-bounty 500'') (register_user 101 fresh)) =
     Response 500 (ErrorReply ''Failed to process webhook'')"
  by (simp add: webhooks_def Let_def dispatch_creation_comment_fails)

subsection \<open>Deletion\<close>





subsection \<open>Amount update\<close>

text \<open>
  C8, at the failing input. Bounty 9 has claims on pull requests 7 and 8, GitHub rejects
  the review comment on 7: the loop stops there, pull request 8 gets no notice and the
  route answers 500. The new amount stays in the store.
\<close>

theorem update_bounty_fanout_stops:
  "update_bounty github_rejects_pr7 U1 9 (Some 600) (example_db Open [claim7, claim8]) =
     \<lparr>outcome = Response 500 (ErrorReply ''Failed to update bounty''),
      store = \<lparr>users = [U1, U2, U3], bounties = [(bounty9 Open)\<lparr>amount := 600\<rparr>],
               bounty_claims = [claim7, claim8], bounties_id_seq = 9,
               bounty_claims_id_seq = 2\<rparr>,
      posted = [IssueComment ''org'' ''repo'' 4242 (AmountUpdated 500 (Some 600))],
      errlog = [''Error updating bounty:'']\<rparr>"
  by (simp add: update_bounty_def update_amount_def update_bounties_def
        check_unique_open_bounty_def Let_def split_owner_def split_repo_def example_defs)

subsection \<open>Claims\<close>

lemma regex_claim_9: "regex_match ''/claim-bounty'' ''/claim-bounty 9'' = Some ''9''"
  by (simp add: match_at_def to_upper_def is_space_def is_digit_def)

lemma parseInt_9: "parseInt ''9'' = 9"
  by (simp add: parseInt_def digit_val_def)

text \<open>
  Whatever the payload and the store, the \<^verbatim>\<open>try\<close> block of the claim handler never
  throws a unique violation, the one error its \<^verbatim>\<open>catch\<close> turns into a comment.
\<close>

lemma createComment_no_sqlstate: "createComment gh p isPRComment body \<noteq> Inl (PgError code)"
  by (simp add: createComment_def Let_def split: option.splits)

lemma comment_and_return_no_sqlstate:
  "fst (comment_and_return gh p isPRComment body db cs) \<noteq> Inl (PgError code)"
proof (cases "createComment gh p isPRComment body")
  case (Inl e)
  with createComment_no_sqlstate [of gh p isPRComment body code] show ?thesis
    by (simp add: comment_and_return_def)
next
  case (Inr c)
  then show ?thesis by (simp add: comment_and_return_def)
qed

lemma claim_try_no_unique_violation:
  "fst (claim_try gh p bountyId isPRComment db) \<noteq> Inl (PgError ''23505'')"
  by (simp add: claim_try_def Let_def comment_and_return_no_sqlstate
        insert_bounty_claim_undefined_column split: list.splits option.splits)

text \<open>
  C2, at the failing input. Pull request 7 holds a claim on the open bounty 9 and sends
  \<^verbatim>\<open>/claim-bounty 9\<close> again, in a comment or in its body. No second claim row is written
  and the handler returns, but nothing is posted: the error it catches is not a
  \<^verbatim>\<open>23505\<close>, so it is only logged.
\<close>

theorem claim_again_posts_nothing:
  "handleBountyClaim github_up pr7_commented (example_db Open [claim7]) =
     \<lparr>outcome = Inr (), store = example_db Open [claim7], posted = [],
      errlog = [''Error claiming bounty:'']\<rparr> \<and>
   handleBountyClaim github_up (pr7_opened 0) (example_db Open [claim7]) =
     \<lparr>outcome = Inr (), store = example_db Open [claim7], posted = [],
      errlog = [''Error claiming bounty:'']\<rparr>"
  by (simp add: handleBountyClaim_def claim_bountyId_def regex_claim_9 parseInt_9 claim_try_def
        insert_bounty_claim_undefined_column error_code_def Let_def example_defs
        del: regex_match.simps)

text \<open>
  C6, at the failing input. U2, registered and not the creator, opens pull request 7
  with \<^verbatim>\<open>/claim-bounty 9\<close> in its body against the open bounty 9, which has no claim yet.
  The \<^verbatim>\<open>INSERT\<close> names the column \<^verbatim>\<open>pull_request_number\<close>, the table has
  \<^verbatim>\<open>pull_request\<close>: no claim row is written and no comment is posted, whether the pull
  request changes files or not.
\<close>

theorem claim_on_opened_pr_writes_nothing:
  "handleBountyClaim github_up (pr7_opened 1) (example_db Open []) =
     \<lparr>outcome = Inr (), store = example_db Open [], posted = [],
      errlog = [''Error claiming bounty:'']\<rparr> \<and>
   handleBountyClaim github_up (pr7_opened 0) (example_db Open []) =
     \<lparr>outcome = Inr (), store = example_db Open [], posted = [],
      errlog = [''Error claiming bounty:'']\<rparr>"
  by (simp add: handleBountyClaim_def claim_bountyId_def regex_claim_9 parseInt_9 claim_try_def
        insert_bounty_claim_undefined_column error_code_def Let_def example_defs
        del: regex_match.simps)

subsection \<open>The parser finds exactly the well-formed commands\<close>

lemma strip_token_Some_iff:
  "strip_token tok s = Some rest \<longleftrightarrow> (\<exists>t. s = t @ rest \<and> map to_upper t = map to_upper tok)"
proof (induction tok s rule: strip_token.induct)
  case (1 s)
  show ?case by auto
next
  case (2 p ps)
  show ?case by auto
next
  case (3 p ps c cs)
  show ?case
  proof (cases "to_upper c = to_upper p")
    case True
    have "(\<exists>t. c # cs = t @ rest \<and> map to_upper t = map to_upper (p # ps)) \<longleftrightarrow>
          (\<exists>t'. cs = t' @ rest \<and> map to_upper t' = map to_upper ps)"
    proof
      assume "\<exists>t. c # cs = t @ rest \<and> map to_upper t = map to_upper (p # ps)"
      then obtain t where t: "c # cs = t @ rest" "map to_upper t = map to_upper (p # ps)"
        by blast
      from t(2) obtain x t' where "t = x # t'" "map to_upper t' = map to_upper ps"
        by (cases t) auto
      with t(1) show "\<exists>t'. cs = t' @ rest \<and> map to_upper t' = map to_upper ps"
        by auto
    next
      assume "\<exists>t'. cs = t' @ rest \<and> map to_upper t' = map to_upper ps"
      then obtain t' where "cs = t' @ rest" "map to_upper t' = map to_upper ps"
        by blast
      with True have "c # cs = (c # t') @ rest \<and> map to_upper (c # t') = map to_upper (p # ps)"
        by simp
      then show "\<exists>t. c # cs = t @ rest \<and> map to_upper t = map to_upper (p # ps)"
        by blast
    qed
    with True 3 show ?thesis by simp
  next
    case False
    have "\<not> (\<exists>t. c # cs = t @ rest \<and> map to_upper t = map to_upper (p # ps))"
    proof
      assume "\<exists>t. c # cs = t @ rest \<and> map to_upper t = map to_upper (p # ps)"
      then obtain t where t: "c # cs = t @ rest" "map to_upper t = map to_upper (p # ps)"
        by blast
      from t(2) obtain x t' where "t = x # t'" "to_upper x = to_upper p"
        by (cases t) auto
      with t(1) False show False by simp
    qed
    with False show ?thesis by simp
  qed
qed

lemma digit_not_space: "is_digit d \<Longrightarrow> \<not> is_space d"
  by (auto simp: is_digit_def is_space_def)

lemma match_at_Some_iff:
  "match_at tok s \<noteq> None \<longleftrightarrow>
     (\<exists>t ws d post. s = t @ ws @ d # post \<and> map to_upper t = map to_upper tok \<and>
        ws \<noteq> [] \<and> (\<forall>c \<in> set ws. is_space c) \<and> is_digit d)"
proof
  assume m: "match_at tok s \<noteq> None"
  then obtain rest where rest: "strip_token tok s = Some rest"
    by (cases "strip_token tok s") (simp_all add: match_at_def)
  let ?ws = "takeWhile is_space rest"
  let ?r = "dropWhile is_space rest"
  from m rest have ws: "?ws \<noteq> []" and ds: "takeWhile is_digit ?r \<noteq> []"
    by (simp_all add: match_at_def Let_def split: if_splits)
  from ds obtain d post where r: "?r = d # post" and d: "is_digit d"
    by (cases ?r) (auto split: if_splits)
  from rest obtain t where t: "s = t @ rest" "map to_upper t = map to_upper tok"
    by (auto simp: strip_token_Some_iff)
  have "rest = ?ws @ ?r" by simp
  with r have "rest = ?ws @ d # post" by simp
  with t have "s = t @ ?ws @ d # post" by simp
  moreover have "\<forall>c \<in> set ?ws. is_space c"
    by (auto dest: set_takeWhileD)
  ultimately show "\<exists>t ws d post. s = t @ ws @ d # post \<and> map to_upper t = map to_upper tok \<and>
        ws \<noteq> [] \<and> (\<forall>c \<in> set ws. is_space c) \<and> is_digit d"
    using t(2) ws d by blast
next
  assume "\<exists>t ws d post. s = t @ ws @ d # post \<and> map to_upper t = map to_upper tok \<and>
        ws \<noteq> [] \<and> (\<forall>c \<in> set ws. is_space c) \<and> is_digit d"
  then obtain t ws d post where s: "s = t @ ws @ d # post"
    and t: "map to_upper t = map to_upper tok"
    and ws: "ws \<noteq> []" "\<forall>c \<in> set ws. is_space c" and d: "is_digit d"
    by blast
  from s t have rest: "strip_token tok s = Some (ws @ d # post)"
    by (auto simp: strip_token_Some_iff)
  from ws(2) d have tw: "takeWhile is_space (ws @ d # post) = ws"
    by (simp add: takeWhile_append2 digit_not_space)
  from ws(2) d have dw: "dropWhile is_space (ws @ d # post) = d # post"
    by (simp add: dropWhile_append2 digit_not_space)
  from ws(1) d show "match_at tok s \<noteq> None"
    by (simp add: match_at_def rest tw dw)
qed

lemma regex_match_Some_iff:
  "regex_match tok s \<noteq> None \<longleftrightarrow> (\<exists>pre suf. s = pre @ suf \<and> match_at tok suf \<noteq> None)"
proof (induction s)
  case Nil
  show ?case by simp
next
  case (Cons c cs)
  have "(\<exists>pre suf. c # cs = pre @ suf \<and> match_at tok suf \<noteq> None) \<longleftrightarrow>
        match_at tok (c # cs) \<noteq> None \<or> (\<exists>pre suf. cs = pre @ suf \<and> match_at tok suf \<noteq> None)"
  proof
    assume "\<exists>pre suf. c # cs = pre @ suf \<and> match_at tok suf \<noteq> None"
    then obtain pre suf where p: "c # cs = pre @ suf" "match_at tok suf \<noteq> None"
      by blast
    show "match_at tok (c # cs) \<noteq> None \<or>
          (\<exists>pre suf. cs = pre @ suf \<and> match_at tok suf \<noteq> None)"
    proof (cases pre)
      case Nil
      with p show ?thesis by simp
    next
      case (Cons x pre')
      with p have "cs = pre' @ suf" by simp
      with p(2) show ?thesis by blast
    qed
  next
    assume "match_at tok (c # cs) \<noteq> None \<or>
            (\<exists>pre suf. cs = pre @ suf \<and> match_at tok suf \<noteq> None)"
    then show "\<exists>pre suf. c # cs = pre @ suf \<and> match_at tok suf \<noteq> None"
    proof
      assume "match_at tok (c # cs) \<noteq> None"
      then have "c # cs = [] @ (c # cs) \<and> match_at tok (c # cs) \<noteq> None" by simp
      then show ?thesis by blast
    next
      assume "\<exists>pre suf. cs = pre @ suf \<and> match_at tok suf \<noteq> None"
      then obtain pre suf where "cs = pre @ suf" "match_at tok suf \<noteq> None" by blast
      then have "c # cs = (c # pre) @ suf \<and> match_at tok suf \<noteq> None" by simp
      then show ?thesis by blast
    qed
  qed
  with Cons show ?case
    by (cases "match_at tok (c # cs)") simp_all
qed

lemma regex_match_None_iff: "regex_match tok s = None \<longleftrightarrow> \<not> has_command tok s"
proof -
  have "has_command tok s \<longleftrightarrow> (\<exists>pre suf. s = pre @ suf \<and> match_at tok suf \<noteq> None)"
    unfolding has_command_def match_at_Some_iff by blast
  then show ?thesis
    using regex_match_Some_iff [of tok s] by blast
qed

subsection \<open>Creation without a usable argument\<close>

text \<open>
  C9. When the text of a create-bounty event (the comment when the payload has one, else
  the issue body) nowhere holds the command token followed by white space and a digit,
  so in particular when \<^verbatim>\<open>/create-bounty\<close> stands there with no argument or with one that
  is not a number, the handler returns normally with nothing: the store is unchanged,
  nothing is posted, nothing is thrown.
\<close>

theorem create_bounty_without_amount:
  assumes "comment p = Some text \<or>
           (comment p = None \<and> (\<exists>i. issue p = Some i \<and> issue_body i = Some text))"
    and "\<not> has_command ''/create-bounty'' text"
  shows "handleBountyCreation gh p db =
           \<lparr>outcome = Inr None, store = db, posted = [], errlog = []\<rparr>"
proof -
  from assms(2) have "regex_match ''/create-bounty'' text = None"
    by (simp add: regex_match_None_iff)
  with assms(1) have "creation_amount p = Inr None"
    by (auto simp: creation_amount_def)
  then show ?thesis
    by (simp add: handleBountyCreation_def)
qed

theorem create_bounty_without_amount_witness:
  "handleBountyCreation github_up (issue_commented ''/create-bounty'') (example_db Completed []) =
     \<lparr>outcome = Inr None, store = example_db Completed [], posted = [], errlog = []\<rparr> \<and>
   handleBountyCreation github_up (issue_opened ''please fix /create-bounty soon'')
       (example_db Completed []) =
     \<lparr>outcome = Inr None, store = example_db Completed [], posted = [], errlog = []\<rparr>"
proof -
  have ra: "regex_match ''/create-bounty'' ''/create-bounty'' = None"
    by (simp add: match_at_def to_upper_def is_space_def is_digit_def)
  have a: "\<not> has_command ''/create-bounty'' ''/create-bounty''"
    by (rule iffD1 [OF regex_match_None_iff ra])
  have rb: "regex_match ''/create-bounty'' ''please fix /create-bounty soon'' = None"
    by (simp add: match_at_def to_upper_def is_space_def is_digit_def)
  have b: "\<not> has_command ''/create-bounty'' ''please fix /create-bounty soon''"
    by (rule iffD1 [OF regex_match_None_iff rb])
  have c: "comment (issue_commented ''/create-bounty'') = Some ''/create-bounty'' \<or>
           (comment (issue_commented ''/create-bounty'') = None \<and>
            (\<exists>i. issue (issue_commented ''/create-bounty'') = Some i \<and>
                 issue_body i = Some ''/create-bounty''))"
    by (simp add: issue_commented_def)
  have d: "comment (issue_opened ''please fix /create-bounty soon'') =
             Some ''please fix /create-bounty soon'' \<or>
           (comment (issue_opened ''please fix /create-bounty soon'') = None \<and>
            (\<exists>i. issue (issue_opened ''please fix /create-bounty soon'') = Some i \<and>
                 issue_body i = Some ''please fix /create-bounty soon''))"
    by (simp add: issue_opened_def issue42_def)
  from create_bounty_without_amount [OF c a] create_bounty_without_amount [OF d b]
  show ?thesis by simp
qed

end
